theory Spec2Isabelle
  imports Complex_Main "HOL-Library.Sublist" "HOL-Library.Code_Target_Nat"
begin

section \<open>JavaScript values and the built-ins that execute relies on\<close>

text \<open>
  The streaming file transfer node has one operation, \<open>execute\<close>. It reads its
  parameters, issues a download request through the host's \<open>helpers.request\<close>,
  checks status and body, issues the upload request with the download stream as its
  body and builds a result record. The embedding follows the source statement by
  statement.

  A JavaScript string is a sequence of UTF-16 code units, modelled as a list of
  natural numbers; \<open>ascii\<close> embeds the literals of the source. A JavaScript number
  is a double: \<open>NaN\<close>, an infinity, or a finite value given by the rational it
  denotes (both zeros are \<open>Finite 0\<close>: the code never tells them apart). Objects used
  as dictionaries are maps.
\<close>

type_synonym js_string = "nat list"

definition ascii :: "string \<Rightarrow> js_string" where
  "ascii s = map of_char s"

type_synonym header_map = "js_string \<rightharpoonup> js_string"

datatype js_number = NaN | Infinity | NegInfinity | Finite rat

text \<open>
  The values a response body can hold. \<open>JBuffer\<close> is a Node \<open>Buffer\<close> with its bytes,
  \<open>JStream\<close> any object whose \<open>pipe\<close> property is a function (the number names the
  stream), \<open>JArray\<close> an array, \<open>JObject\<close> a plain object given by its own
  properties (as \<open>JSON.parse\<close> or an object literal builds it; the first entry for a
  key is the property). No value of this type is a function.
\<close>

datatype js_value =
    JUndefined
  | JNull
  | JBool bool
  | JNumber js_number
  | JString js_string
  | JArray "js_value list"
  | JObject "(js_string \<times> js_value) list"
  | JBuffer "nat list"
  | JStream nat

text \<open>What a \<open>throw\<close> carries: an \<open>Error\<close> with its message, or any other value,
  given by its \<open>String(...)\<close> rendering.\<close>

datatype js_thrown = ErrorObject js_string | OtherThrown js_string

subsection \<open>Numbers\<close>

fun isNaN :: "js_number \<Rightarrow> bool" where
  "isNaN NaN = True"
| "isNaN n = False"

text \<open>\<open>n > 0\<close>; a comparison with \<open>NaN\<close> is false.\<close>

fun greater_than_zero :: "js_number \<Rightarrow> bool" where
  "greater_than_zero (Finite r) = (0 < r)"
| "greater_than_zero Infinity = True"
| "greater_than_zero n = False"

text \<open>Truthiness of a number: neither \<open>NaN\<close> nor a zero.\<close>

fun number_truthy :: "js_number \<Rightarrow> bool" where
  "number_truthy NaN = False"
| "number_truthy (Finite r) = (r \<noteq> 0)"
| "number_truthy n = True"

fun nat_digits :: "nat \<Rightarrow> js_string" where
  "nat_digits n = (if n < 10 then [48 + n] else nat_digits (n div 10) @ [48 + n mod 10])"

declare nat_digits.simps [simp del]

text \<open>The decimal digits of an integer, with a minus sign when it is negative.\<close>

definition decimal :: "int \<Rightarrow> js_string" where
  "decimal i = (if i < 0 then 45 # nat_digits (nat (- i)) else nat_digits (nat i))"

text \<open>An integer below \<open>2^53\<close> in absolute value: every such integer is a double.\<close>

definition is_safe_integer :: "rat \<Rightarrow> bool" where
  "is_safe_integer r = (of_int \<lfloor>r\<rfloor> = r \<and> \<bar>r\<bar> < 2 ^ 53)"

text \<open>
  \<open>String(n)\<close> and \<open>`${n}`\<close> for a number \<open>n\<close> (Number::toString). For a safe
  integer the result is its decimal digits. For every other finite number it is the
  shortest digit string that reads back as the same double, in fixed or exponent
  form (\<open>1.5\<close>, \<open>1e+21\<close>); that part of the language is the parameter \<open>digits\<close>.
\<close>

definition Number_toString :: "(js_number \<Rightarrow> js_string) \<Rightarrow> js_number \<Rightarrow> js_string" where
  "Number_toString digits n =
     (case n of
        NaN \<Rightarrow> ascii ''NaN''
      | Infinity \<Rightarrow> ascii ''Infinity''
      | NegInfinity \<Rightarrow> ascii ''-Infinity''
      | Finite r \<Rightarrow> if is_safe_integer r then decimal \<lfloor>r\<rfloor> else digits n)"

text \<open>The number of binary digits of a positive integer.\<close>

fun bit_length :: "int \<Rightarrow> nat" where
  "bit_length n = (if n \<le> 0 then 0 else Suc (bit_length (n div 2)))"

declare bit_length.simps [simp del]

text \<open>
  The Number value for a mathematical integer: the integer itself below \<open>2^53\<close> in
  absolute value, otherwise the nearest double (53 significant binary digits, a tie
  going to the even one), an infinity from \<open>2^1024\<close> on.
\<close>

definition to_Number :: "int \<Rightarrow> js_number" where
  "to_Number i =
     (let n = \<bar>i\<bar> in
      if n < 2 ^ 53 then Finite (of_int i)
      else
        (let e = bit_length n - 53;
             q = n div 2 ^ e;
             r = n mod 2 ^ e;
             half = 2 ^ (e - 1);
             q' = (if half < r \<or> (r = half \<and> odd q) then q + 1 else q);
             v = q' * 2 ^ e
         in if 2 ^ 1024 \<le> v then (if i < 0 then NegInfinity else Infinity)
            else Finite (of_int (if i < 0 then - v else v))))"

subsection \<open>Strings\<close>

text \<open>
  The code units that \<open>trim\<close> strips and \<open>parseInt\<close> skips: the white space
  and line terminators of the language (tab, line feed, vertical tab, form feed,
  carriage return, space, no-break space, U+1680, U+2000 to U+200A, U+2028, U+2029,
  U+202F, U+205F, U+3000, U+FEFF).
\<close>

definition is_whitespace :: "nat \<Rightarrow> bool" where
  "is_whitespace c =
     (c \<in> {9, 10, 11, 12, 13, 32, 160, 5760, 8232, 8233, 8239, 8287, 12288, 65279}
      \<or> (8192 \<le> c \<and> c \<le> 8202))"

definition is_digit :: "nat \<Rightarrow> bool" where
  "is_digit c = (48 \<le> c \<and> c \<le> 57)"

text \<open>\<open>s.trim()\<close>.\<close>

definition js_trim :: "js_string \<Rightarrow> js_string" where
  "js_trim s = rev (dropWhile is_whitespace (rev (dropWhile is_whitespace s)))"

definition digits_value :: "js_string \<Rightarrow> int" where
  "digits_value ds = foldl (\<lambda>acc c. 10 * acc + (int c - 48)) 0 ds"

text \<open>
  \<open>parseInt(s, 10)\<close>: leading white space is skipped, a sign is read, then the
  longest run of decimal digits; \<open>NaN\<close> when that run is empty, otherwise the Number
  value for the signed integer the digits denote. (The language lets an engine read
  the digits after the twentieth as zeros; here every digit is read.)
\<close>

definition parseInt :: "js_string \<Rightarrow> js_number" where
  "parseInt s =
     (let t = dropWhile is_whitespace s;
          neg = (t \<noteq> [] \<and> hd t = 45);
          r = (if t \<noteq> [] \<and> (hd t = 45 \<or> hd t = 43) then tl t else t);
          ds = takeWhile is_digit r
      in if ds = [] then NaN
         else to_Number (if neg then - digits_value ds else digits_value ds))"

text \<open>\<open>s.includes(sub)\<close>.\<close>

definition js_includes :: "js_string \<Rightarrow> js_string \<Rightarrow> bool" where
  "js_includes s sub = sublist sub s"

text \<open>Truthiness of a looked-up header: present and not the empty string.\<close>

fun header_truthy :: "js_string option \<Rightarrow> bool" where
  "header_truthy None = False"
| "header_truthy (Some s) = (s \<noteq> [])"

subsection \<open>Inspecting a value\<close>

fun js_truthy :: "js_value \<Rightarrow> bool" where
  "js_truthy JUndefined = False"
| "js_truthy JNull = False"
| "js_truthy (JBool b) = b"
| "js_truthy (JNumber n) = number_truthy n"
| "js_truthy (JString s) = (s \<noteq> [])"
| "js_truthy (JArray xs) = True"
| "js_truthy (JObject kvs) = True"
| "js_truthy (JBuffer bs) = True"
| "js_truthy (JStream h) = True"

fun isBuffer :: "js_value \<Rightarrow> bool" where
  "isBuffer (JBuffer bs) = True"
| "isBuffer v = False"

fun buffer_length :: "js_value \<Rightarrow> nat" where
  "buffer_length (JBuffer bs) = length bs"
| "buffer_length v = 0"

text \<open>\<open>typeof v.pipe === 'function'\<close>: an own \<open>pipe\<close> property of a plain object is
  not a function.\<close>

fun has_pipe :: "js_value \<Rightarrow> bool" where
  "has_pipe (JStream h) = True"
| "has_pipe v = False"

fun js_typeof :: "js_value \<Rightarrow> js_string" where
  "js_typeof JUndefined = ascii ''undefined''"
| "js_typeof (JBool b) = ascii ''boolean''"
| "js_typeof (JNumber n) = ascii ''number''"
| "js_typeof (JString s) = ascii ''string''"
| "js_typeof v = ascii ''object''"

text \<open>\<open>c?.name\<close> for a value \<open>c\<close> found as somebody's \<open>constructor\<close> property: an own
  \<open>name\<close> property of a plain object, undefined for anything else of this type.\<close>

fun name_property :: "js_value \<Rightarrow> js_value" where
  "name_property (JObject kvs) =
     (case map_of kvs (ascii ''name'') of None \<Rightarrow> JUndefined | Some n \<Rightarrow> n)"
| "name_property c = JUndefined"

text \<open>
  \<open>v?.constructor?.name\<close>: undefined for \<open>undefined\<close> and \<open>null\<close>; the name of the
  built-in constructor for a primitive, an array and a Buffer; for a plain object the
  \<open>name\<close> of its own \<open>constructor\<close> property when it has one, \<open>Object\<close> otherwise.
  The value for a stream is never read: a stream passes the checks.
\<close>

fun constructor_name :: "js_value \<Rightarrow> js_value" where
  "constructor_name JUndefined = JUndefined"
| "constructor_name JNull = JUndefined"
| "constructor_name (JBool b) = JString (ascii ''Boolean'')"
| "constructor_name (JNumber n) = JString (ascii ''Number'')"
| "constructor_name (JString s) = JString (ascii ''String'')"
| "constructor_name (JArray xs) = JString (ascii ''Array'')"
| "constructor_name (JObject kvs) =
     (case map_of kvs (ascii ''constructor'') of
        None \<Rightarrow> JString (ascii ''Object'')
      | Some c \<Rightarrow> name_property c)"
| "constructor_name (JBuffer bs) = JString (ascii ''Buffer'')"
| "constructor_name (JStream h) = JString (ascii ''Readable'')"

section \<open>Parameters, requests, responses and results\<close>

text \<open>The \<open>contentLength\<close> parameter is \<open>string | number\<close>; its default is the empty
  string.\<close>

datatype content_length = CLString js_string | CLNumber js_number

fun cl_truthy :: "content_length \<Rightarrow> bool" where
  "cl_truthy (CLString s) = (s \<noteq> [])"
| "cl_truthy (CLNumber n) = number_truthy n"

record params =
  itemIndex :: nat
  downloadUrl :: js_string
  uploadUrl :: js_string
  contentLength :: content_length
  http_method :: js_string
  downloadHeadersParam :: js_value
  uploadHeadersParam :: js_value
  throwOnError :: bool

text \<open>\<open>IRequestOptions\<close> as the source fills it. \<open>encoding_null\<close> stands for
  \<open>encoding: null\<close>, which only the download request sets.\<close>

record request_options =
  req_method :: js_string
  url :: js_string
  headers :: header_map
  body :: js_value
  encoding_null :: bool
  resolveWithFullResponse :: bool

text \<open>The full response of \<open>helpers.request\<close>: \<open>statusCode\<close> and \<open>headers\<close> may be
  undefined.\<close>

record response =
  statusCode :: "int option"
  resp_headers :: "header_map option"
  resp_body :: js_value

text \<open>
  What \<open>execute\<close> gets from outside its own text: the two helpers of the
  GenericFunctions module (not among the sources; taken as parameters), the host's
  HTTP transport (a thrown value or a response for each request), and the parts of
  the language that are not modelled here: the JSON codec (\<open>JSON.parse\<close> throws on
  text that is not JSON: \<open>None\<close>), the digits of a number that is not a safe integer,
  and the conversion of an object to a string, which may throw.
\<close>

record env =
  parseHeaders :: "js_value \<Rightarrow> js_thrown + header_map"
  extractBearerToken :: "js_string \<Rightarrow> js_string option"
  request :: "request_options \<Rightarrow> js_thrown + response"
  JSON_parse :: "js_string \<Rightarrow> js_value option"
  JSON_stringify :: "js_value \<Rightarrow> js_string"
  Number_digits :: "js_number \<Rightarrow> js_string"
  String_object :: "js_value \<Rightarrow> js_thrown + js_string"

text \<open>The \<open>json\<close> object of the returned item; a key the source does not write, or
  writes as undefined, is \<open>None\<close>.\<close>

record result_json =
  success :: "bool option"
  error :: "js_string option"
  downloadStatus :: "int option"
  uploadStatus :: "int option"
  uploadResponse :: "js_value option"
  res_downloadUrl :: "js_string option"
  res_uploadUrl :: "js_string option"

record execution_data =
  json :: result_json
  pairedItem :: nat

datatype outcome = Raised js_thrown | Returned execution_data

text \<open>\<open>String(n)\<close> and \<open>`${n}`\<close> for a number, an integer status code and a byte
  count.\<close>

definition String_number :: "env \<Rightarrow> js_number \<Rightarrow> js_string" where
  "String_number e n = Number_toString (Number_digits e) n"

definition String_int :: "env \<Rightarrow> int \<Rightarrow> js_string" where
  "String_int e i = String_number e (Finite (of_int i))"

text \<open>\<open>String(v)\<close> and \<open>`${v}`\<close> for any value: fixed for a primitive, the language's
  conversion for an object.\<close>

definition js_ToString :: "env \<Rightarrow> js_value \<Rightarrow> js_thrown + js_string" where
  "js_ToString e v =
     (case v of
        JUndefined \<Rightarrow> Inr (ascii ''undefined'')
      | JNull \<Rightarrow> Inr (ascii ''null'')
      | JBool b \<Rightarrow> Inr (if b then ascii ''true'' else ascii ''false'')
      | JNumber n \<Rightarrow> Inr (String_number e n)
      | JString s \<Rightarrow> Inr s
      | _ \<Rightarrow> String_object e v)"

section \<open>The header computations of execute\<close>

definition finalDownloadHeaders :: "header_map \<Rightarrow> header_map" where
  "finalDownloadHeaders downloadHeaders = [ascii ''Accept'' \<mapsto> ascii ''*/*''] ++ downloadHeaders"

definition mergedUploadHeaders :: "header_map \<Rightarrow> header_map" where
  "mergedUploadHeaders uploadHeaders =
     [ascii ''Content-Type'' \<mapsto> ascii ''application/octet-stream''] ++ uploadHeaders"

definition addBearer :: "js_string option \<Rightarrow> header_map \<Rightarrow> header_map" where
  "addBearer token h =
     (case token of
        None \<Rightarrow> h
      | Some t \<Rightarrow>
          if t \<noteq> [] \<and> \<not> header_truthy (h (ascii ''Authorization''))
               \<and> \<not> header_truthy (h (ascii ''authorization''))
          then h(ascii ''Authorization'' \<mapsto> ascii ''Bearer '' @ t)
          else h)"

text \<open>\<open>typeof c === 'number' ? c : parseInt(c, 10)\<close>.\<close>

definition to_length :: "content_length \<Rightarrow> js_number" where
  "to_length c = (case c of CLNumber n \<Rightarrow> n | CLString s \<Rightarrow> parseInt s)"

text \<open>\<open>if (!isNaN(length) && length > 0) headers['Content-Length'] = String(length)\<close>.\<close>

definition setContentLength :: "env \<Rightarrow> content_length \<Rightarrow> header_map \<Rightarrow> header_map" where
  "setContentLength e c h =
     (if \<not> isNaN (to_length c) \<and> greater_than_zero (to_length c)
      then h(ascii ''Content-Length'' \<mapsto> String_number e (to_length c))
      else h)"

definition addProvidedContentLength :: "env \<Rightarrow> content_length \<Rightarrow> header_map \<Rightarrow> header_map" where
  "addProvidedContentLength e cl h = (if cl_truthy cl then setContentLength e cl h else h)"

definition actualContentLength :: "content_length \<Rightarrow> header_map \<Rightarrow> content_length option" where
  "actualContentLength cl responseHeaders =
     (if cl_truthy cl then Some cl
      else map_option CLString (responseHeaders (ascii ''content-length'')))"

definition addActualContentLength ::
  "env \<Rightarrow> content_length \<Rightarrow> header_map \<Rightarrow> header_map \<Rightarrow> header_map" where
  "addActualContentLength e cl responseHeaders h =
     (case actualContentLength cl responseHeaders of
        None \<Rightarrow> h
      | Some a \<Rightarrow>
          if cl_truthy a \<and> \<not> header_truthy (h (ascii ''Content-Length''))
          then setContentLength e a h
          else h)"

section \<open>The diagnostic messages\<close>

definition downloadFailedMessage :: "env \<Rightarrow> int \<Rightarrow> js_string \<Rightarrow> js_string" where
  "downloadFailedMessage e status dUrl =
     ascii ''Download failed with HTTP '' @ String_int e status @ ascii '' from '' @ dUrl
     @ ascii ''. Please verify the download URL is accessible and returns a successful response.''"

definition uploadFailedMessage :: "env \<Rightarrow> int \<Rightarrow> js_string \<Rightarrow> js_string \<Rightarrow> js_string" where
  "uploadFailedMessage e status uUrl m =
     ascii ''Upload failed with HTTP '' @ String_int e status @ ascii '' to '' @ uUrl @ ascii ''. ''
     @ ascii ''Please verify the upload URL is correct, authentication is valid, and the endpoint accepts ''
     @ m @ ascii '' requests.''"

definition bufferedMessage :: "env \<Rightarrow> js_string \<Rightarrow> nat \<Rightarrow> js_string" where
  "bufferedMessage e dUrl n =
     ascii ''Download response from '' @ dUrl @ ascii '' was buffered instead of streamed. ''
     @ ascii ''The response body is a Buffer ('' @ String_int e (int n)
     @ ascii '' bytes), which means the entire file was loaded into memory. ''
     @ ascii ''This defeats the purpose of streaming. Please ensure the download URL returns a stream. ''
     @ ascii ''Check that 'Accept: */*' header is set and encoding is null.''"

text \<open>\<open>downloadStream?.constructor?.name || 'unknown'\<close>: a value, not yet a string.\<close>

definition bodyConstructor :: "js_value \<Rightarrow> js_value" where
  "bodyConstructor v =
     (if js_truthy (constructor_name v) then constructor_name v
      else JString (ascii ''unknown''))"

text \<open>The preview: \<open>JSON.stringify\<close> for a truthy value of type object, \<open>String\<close> for
  any other, cut to 200 code units. \<open>String\<close> may throw.\<close>

definition bodyPreview :: "env \<Rightarrow> js_value \<Rightarrow> js_thrown + js_string" where
  "bodyPreview e v =
     (if js_truthy v \<and> js_typeof v = ascii ''object''
      then Inr (take 200 (JSON_stringify e v))
      else (case js_ToString e v of
              Inl err \<Rightarrow> Inl err
            | Inr s \<Rightarrow> Inr (take 200 s)))"

text \<open>The message of the not-streamable error, from the three strings the template
  is filled with.\<close>

definition notStreamableMessage ::
  "js_string \<Rightarrow> js_string \<Rightarrow> js_string \<Rightarrow> js_string \<Rightarrow> js_string" where
  "notStreamableMessage dUrl bodyType constructorText preview =
     ascii ''Download response from '' @ dUrl @ ascii '' is not a streamable format. ''
     @ ascii ''The response body type is: '' @ bodyType @ ascii '', constructor: ''
     @ constructorText @ ascii ''. ''
     @ (if preview \<noteq> []
        then ascii ''Response preview: '' @ preview
             @ (if 200 \<le> length preview then ascii ''...'' else []) @ ascii ''. ''
        else [])
     @ ascii ''This usually means the server returned JSON/text instead of binary data, or the response was parsed/buffered. ''
     @ ascii ''Please ensure the download URL returns a binary stream. ''
     @ ascii ''You may need to add headers like 'Accept: */*' to prevent automatic parsing.''"

text \<open>
  What the not-streamable branch throws. The preview is computed first, then the
  template converts the constructor value to a string; either conversion may throw,
  and then that error is what leaves the branch instead of the diagnostic.
\<close>

definition notStreamableThrown :: "env \<Rightarrow> js_string \<Rightarrow> js_value \<Rightarrow> js_thrown" where
  "notStreamableThrown e dUrl v =
     (case bodyPreview e v of
        Inl err \<Rightarrow> err
      | Inr preview \<Rightarrow>
          (case js_ToString e (bodyConstructor v) of
             Inl err \<Rightarrow> err
           | Inr constructorText \<Rightarrow>
               ErrorObject (notStreamableMessage dUrl (js_typeof v) constructorText preview)))"

text \<open>The outer \<open>catch\<close>: a message that already names one of the URL fields is kept,
  any other is wrapped with both URLs.\<close>

definition enhancedMessage :: "js_string \<Rightarrow> js_string \<Rightarrow> js_string \<Rightarrow> js_string" where
  "enhancedMessage errorMessage dUrl uUrl =
     (if js_includes errorMessage (ascii ''Download URL'')
         \<or> js_includes errorMessage (ascii ''Upload URL'')
      then errorMessage
      else ascii ''File transfer failed: '' @ errorMessage @ ascii ''. Download URL: '' @ dUrl
           @ ascii '', Upload URL: '' @ uUrl)"

fun thrown_message :: "js_thrown \<Rightarrow> js_string" where
  "thrown_message (ErrorObject m) = m"
| "thrown_message (OtherThrown s) = s"

section \<open>The transfer\<close>

text \<open>A status code fails the check when it is defined and outside \<open>[200, 300)\<close>.\<close>

fun status_failed :: "int option \<Rightarrow> bool" where
  "status_failed None = False"
| "status_failed (Some c) = (c < 200 \<or> 300 \<le> c)"

text \<open>\<open>statusCode || 200\<close>.\<close>

fun status_or_200 :: "int option \<Rightarrow> int" where
  "status_or_200 None = 200"
| "status_or_200 (Some c) = (if c \<noteq> 0 then c else 200)"

definition downloadOptions :: "params \<Rightarrow> header_map \<Rightarrow> request_options" where
  "downloadOptions p fdh =
     \<lparr>req_method = ascii ''GET'', url = downloadUrl p, headers = fdh, body = JUndefined,
      encoding_null = True, resolveWithFullResponse = True\<rparr>"

definition uploadOptions :: "params \<Rightarrow> header_map \<Rightarrow> js_value \<Rightarrow> request_options" where
  "uploadOptions p fuh downloadStream =
     \<lparr>req_method = http_method p, url = uploadUrl p, headers = fuh, body = downloadStream,
      encoding_null = False, resolveWithFullResponse = True\<rparr>"

text \<open>The \<open>uploadResponse\<close> key of the success record: absent for an undefined body,
  the decoded value for a string that \<open>JSON.parse\<close> accepts, the body itself
  otherwise (also from the inner \<open>catch\<close>).\<close>

definition decodeUploadBody :: "(js_string \<Rightarrow> js_value option) \<Rightarrow> js_value \<Rightarrow> js_value option" where
  "decodeUploadBody parse b =
     (case b of
        JUndefined \<Rightarrow> None
      | JString s \<Rightarrow> (case parse s of Some v \<Rightarrow> Some v | None \<Rightarrow> Some (JString s))
      | _ \<Rightarrow> Some b)"

definition downloadFailureRecord :: "env \<Rightarrow> params \<Rightarrow> int \<Rightarrow> execution_data" where
  "downloadFailureRecord e p status =
     \<lparr>json = \<lparr>success = None,
               error = Some (downloadFailedMessage e status (downloadUrl p)),
               downloadStatus = Some status, uploadStatus = None, uploadResponse = None,
               res_downloadUrl = Some (downloadUrl p), res_uploadUrl = None\<rparr>,
      pairedItem = itemIndex p\<rparr>"

definition uploadFailureRecord :: "env \<Rightarrow> params \<Rightarrow> int \<Rightarrow> int option \<Rightarrow> execution_data" where
  "uploadFailureRecord e p status downloadStatusCode =
     \<lparr>json = \<lparr>success = None,
               error = Some (uploadFailedMessage e status (uploadUrl p) (http_method p)),
               downloadStatus = downloadStatusCode, uploadStatus = Some status,
               uploadResponse = None,
               res_downloadUrl = Some (downloadUrl p), res_uploadUrl = Some (uploadUrl p)\<rparr>,
      pairedItem = itemIndex p\<rparr>"

definition successRecord ::
  "env \<Rightarrow> params \<Rightarrow> int option \<Rightarrow> int option \<Rightarrow> js_value \<Rightarrow> execution_data" where
  "successRecord e p downloadStatusCode uploadStatusCode uploadBody =
     \<lparr>json = \<lparr>success = Some True, error = None,
               downloadStatus = Some (status_or_200 downloadStatusCode),
               uploadStatus = Some (status_or_200 uploadStatusCode),
               uploadResponse = decodeUploadBody (JSON_parse e) uploadBody,
               res_downloadUrl = None, res_uploadUrl = None\<rparr>,
      pairedItem = itemIndex p\<rparr>"

definition caughtRecord :: "params \<Rightarrow> js_string \<Rightarrow> execution_data" where
  "caughtRecord p enhanced =
     \<lparr>json = \<lparr>success = Some False, error = Some enhanced,
               downloadStatus = None, uploadStatus = None, uploadResponse = None,
               res_downloadUrl = Some (downloadUrl p), res_uploadUrl = Some (uploadUrl p)\<rparr>,
      pairedItem = itemIndex p\<rparr>"

text \<open>
  The body of the \<open>try\<close> block, from the upload request on. The result pairs the
  requests issued, in order, with what the block does: \<open>Inl\<close> a value thrown inside
  the block (the outer \<open>catch\<close> gets it), \<open>Inr\<close> a returned item.
\<close>

definition uploadPhase ::
  "env \<Rightarrow> params \<Rightarrow> request_options \<Rightarrow> header_map \<Rightarrow> js_value \<Rightarrow> int option
     \<Rightarrow> request_options list \<times> (js_thrown + execution_data)" where
  "uploadPhase e p dOpts fuh downloadStream downloadStatusCode =
     (let uOpts = uploadOptions p fuh downloadStream in
      case request e uOpts of
        Inl err \<Rightarrow> ([dOpts, uOpts], Inl err)
      | Inr uploadResp \<Rightarrow>
          (case statusCode uploadResp of
             None \<Rightarrow>
               ([dOpts, uOpts],
                Inr (successRecord e p downloadStatusCode None (resp_body uploadResp)))
           | Some uploadStatusCode \<Rightarrow>
               if uploadStatusCode < 200 \<or> 300 \<le> uploadStatusCode
               then ([dOpts, uOpts],
                     if throwOnError p
                     then Inl (ErrorObject
                            (uploadFailedMessage e uploadStatusCode (uploadUrl p) (http_method p)))
                     else Inr (uploadFailureRecord e p uploadStatusCode downloadStatusCode))
               else ([dOpts, uOpts],
                     Inr (successRecord e p downloadStatusCode (Some uploadStatusCode)
                            (resp_body uploadResp)))))"

text \<open>The upload headers once the download response is in: \<open>headers || {}\<close>, then
  the content length from the response where none was set.\<close>

definition finalUploadHeaders ::
  "env \<Rightarrow> params \<Rightarrow> response \<Rightarrow> header_map \<Rightarrow> header_map" where
  "finalUploadHeaders e p downloadResp fuh =
     (let responseHeaders =
            (case resp_headers downloadResp of None \<Rightarrow> Map.empty | Some h \<Rightarrow> h)
      in addActualContentLength e (contentLength p) responseHeaders fuh)"

text \<open>From the content length to the end of the \<open>try\<close> block: the two stream
  checks, then the upload.\<close>

definition streamPhase ::
  "env \<Rightarrow> params \<Rightarrow> request_options \<Rightarrow> header_map \<Rightarrow> response
     \<Rightarrow> request_options list \<times> (js_thrown + execution_data)" where
  "streamPhase e p dOpts fuh downloadResp =
     (let fuh' = finalUploadHeaders e p downloadResp fuh;
          downloadStream = resp_body downloadResp
      in if isBuffer downloadStream
         then ([dOpts],
               Inl (ErrorObject
                      (bufferedMessage e (downloadUrl p) (buffer_length downloadStream))))
         else if \<not> js_truthy downloadStream \<or> \<not> has_pipe downloadStream
         then ([dOpts], Inl (notStreamableThrown e (downloadUrl p) downloadStream))
         else uploadPhase e p dOpts fuh' downloadStream (statusCode downloadResp))"

text \<open>The body of the \<open>try\<close> block: the download request and its status check.\<close>

definition tryBlock ::
  "env \<Rightarrow> params \<Rightarrow> header_map \<Rightarrow> header_map
     \<Rightarrow> request_options list \<times> (js_thrown + execution_data)" where
  "tryBlock e p fdh fuh =
     (let dOpts = downloadOptions p fdh in
      case request e dOpts of
        Inl err \<Rightarrow> ([dOpts], Inl err)
      | Inr downloadResp \<Rightarrow>
          (case statusCode downloadResp of
             None \<Rightarrow> streamPhase e p dOpts fuh downloadResp
           | Some downloadStatusCode \<Rightarrow>
               if downloadStatusCode < 200 \<or> 300 \<le> downloadStatusCode
               then ([dOpts],
                     if throwOnError p
                     then Inl (ErrorObject
                                 (downloadFailedMessage e downloadStatusCode (downloadUrl p)))
                     else Inr (downloadFailureRecord e p downloadStatusCode))
               else streamPhase e p dOpts fuh downloadResp))"

text \<open>The outer \<open>catch\<close> block.\<close>

definition catchBlock :: "params \<Rightarrow> js_thrown \<Rightarrow> outcome" where
  "catchBlock p err =
     (let enhanced = enhancedMessage (thrown_message err) (downloadUrl p) (uploadUrl p) in
      if throwOnError p then Raised (ErrorObject enhanced)
      else Returned (caughtRecord p enhanced))"

text \<open>The upload headers as they stand when the \<open>try\<close> block is entered.\<close>

definition preparedUploadHeaders :: "env \<Rightarrow> params \<Rightarrow> header_map \<Rightarrow> header_map" where
  "preparedUploadHeaders e p uploadHeaders =
     addProvidedContentLength e (contentLength p)
       (addBearer (extractBearerToken e (uploadUrl p)) (mergedUploadHeaders uploadHeaders))"

text \<open>
  \<open>execute\<close>: the requests issued, in order, and the outcome. The two URL checks and
  the two \<open>parseHeaders\<close> calls stand before the \<open>try\<close>, so what they throw is
  raised as it is.
\<close>

definition execute :: "env \<Rightarrow> params \<Rightarrow> request_options list \<times> outcome" where
  "execute e p =
     (if downloadUrl p = [] \<or> js_trim (downloadUrl p) = []
      then ([], Raised (ErrorObject (ascii ''Download URL is required and cannot be empty'')))
      else if uploadUrl p = [] \<or> js_trim (uploadUrl p) = []
      then ([], Raised (ErrorObject (ascii ''Upload URL is required and cannot be empty'')))
      else
        (case parseHeaders e (downloadHeadersParam p) of
           Inl err \<Rightarrow> ([], Raised err)
         | Inr downloadHeaders \<Rightarrow>
             (case parseHeaders e (uploadHeadersParam p) of
                Inl err \<Rightarrow> ([], Raised err)
              | Inr uploadHeaders \<Rightarrow>
                  (case tryBlock e p (finalDownloadHeaders downloadHeaders)
                          (preparedUploadHeaders e p uploadHeaders) of
                     (issued, Inr item) \<Rightarrow> (issued, Returned item)
                   | (issued, Inl err) \<Rightarrow> (issued, catchBlock p err)))))"

section \<open>Collaborators for concrete runs\<close>

section \<open>Collaborators for concrete runs\<close>

text \<open>
  Modelled from the spec: \<open>extractBearerToken\<close> of the GenericFunctions module, which
  is not among the sources. The spec has it parse the URL and look, case-sensitively,
  for a query parameter named \<open>bearer\<close>, returning its value or undefined. The query
  runs from the first \<open>?\<close> (code unit 63) to the fragment (\<open>#\<close>, 35); parameters are
  separated by \<open>&\<close> (38), a key from its value by the first \<open>=\<close> (61).
  Percent-decoding, on which the spec is silent, is left out.
\<close>

fun split_on :: "nat \<Rightarrow> js_string \<Rightarrow> js_string list" where
  "split_on c [] = [[]]"
| "split_on c (x # xs) =
     (if x = c then [] # split_on c xs
      else (case split_on c xs of [] \<Rightarrow> [[x]] | w # ws \<Rightarrow> (x # w) # ws))"

definition query_params :: "js_string \<Rightarrow> (js_string \<times> js_string) list" where
  "query_params u =
     (let noFragment = takeWhile (\<lambda>c. c \<noteq> 35) u;
          query = drop 1 (dropWhile (\<lambda>c. c \<noteq> 63) noFragment)
      in map (\<lambda>kv. (takeWhile (\<lambda>c. c \<noteq> 61) kv, drop 1 (dropWhile (\<lambda>c. c \<noteq> 61) kv)))
           (split_on 38 query))"

definition extractBearerToken_model :: "js_string \<Rightarrow> js_string option" where
  "extractBearerToken_model u = map_of (query_params u) (ascii ''bearer'')"

text \<open>
  Modelled from the spec: \<open>parseHeaders\<close> of the GenericFunctions module, which is not
  among the sources. The spec has it return a mapping verbatim, its values coerced to
  strings, decode a string as JSON first, and fail with a parse error on text that is
  not JSON or does not decode to an object. A string value is kept as it is; how any
  other value is coerced is the parameter \<open>coerce\<close>. The error's message is not given
  by the spec.
\<close>

definition header_entries ::
  "(js_value \<Rightarrow> js_string) \<Rightarrow> (js_string \<times> js_value) list \<Rightarrow> header_map" where
  "header_entries coerce kvs =
     map_of (map (\<lambda>(k, v). (k, case v of JString s \<Rightarrow> s | _ \<Rightarrow> coerce v)) kvs)"

definition parseHeaders_model ::
  "(js_string \<Rightarrow> js_value option) \<Rightarrow> (js_value \<Rightarrow> js_string) \<Rightarrow> js_value
     \<Rightarrow> js_thrown + header_map" where
  "parseHeaders_model decode coerce input =
     (case input of
        JObject kvs \<Rightarrow> Inr (header_entries coerce kvs)
      | JString s \<Rightarrow>
          (case decode s of
             Some (JObject kvs) \<Rightarrow> Inr (header_entries coerce kvs)
           | _ \<Rightarrow> Inl (ErrorObject (ascii ''ParseError'')))
      | _ \<Rightarrow> Inl (ErrorObject (ascii ''ParseError'')))"

text \<open>
  The language's parts, as far as the runs need them: a JSON codec that knows a few
  texts, the digits of two numbers that are not safe integers, and the conversion of
  a plain object that has no \<open>toString\<close> property of its own. The transport answers
  the \<open>GET\<close> request with one canned answer and every other request with another.
\<close>

definition sample_JSON_parse :: "js_string \<Rightarrow> js_value option" where
  "sample_JSON_parse =
     map_of [(ascii ''{}'', JObject []),
             (ascii ''[1,2]'', JArray [JNumber (Finite 1), JNumber (Finite 2)]),
             (ascii ''true'', JBool True), (ascii ''null'', JNull)]"

fun sample_JSON_stringify :: "js_value \<Rightarrow> js_string" where
  "sample_JSON_stringify (JArray []) = ascii ''[]''"
| "sample_JSON_stringify (JObject []) = ascii ''{}''"
| "sample_JSON_stringify v = ascii ''{...}''"

definition sample_Number_digits :: "js_number \<Rightarrow> js_string" where
  "sample_Number_digits n =
     (if n = Finite (3 / 2) then ascii ''1.5''
      else if n = Finite (10 ^ 21) then ascii ''1e+21''
      else [])"

definition sample_String_object :: "js_value \<Rightarrow> js_thrown + js_string" where
  "sample_String_object v = Inr (ascii ''[object Object]'')"

definition canned_request ::
  "js_thrown + response \<Rightarrow> js_thrown + response \<Rightarrow> request_options \<Rightarrow> js_thrown + response" where
  "canned_request downloadAnswer uploadAnswer opts =
     (if req_method opts = ascii ''GET'' then downloadAnswer else uploadAnswer)"

definition sample_env :: "js_thrown + response \<Rightarrow> js_thrown + response \<Rightarrow> env" where
  "sample_env downloadAnswer uploadAnswer =
     \<lparr>parseHeaders = parseHeaders_model sample_JSON_parse sample_JSON_stringify,
      extractBearerToken = extractBearerToken_model,
      request = canned_request downloadAnswer uploadAnswer,
      JSON_parse = sample_JSON_parse,
      JSON_stringify = sample_JSON_stringify,
      Number_digits = sample_Number_digits,
      String_object = sample_String_object\<rparr>"

definition sample_params :: params where
  "sample_params =
     \<lparr>itemIndex = 0,
      downloadUrl = ascii ''https://files.example/a.bin'',
      uploadUrl = ascii ''https://up.example/put?bearer=ABC123'',
      contentLength = CLString [],
      http_method = ascii ''POST'',
      downloadHeadersParam = JObject [],
      uploadHeadersParam = JObject [],
      throwOnError = True\<rparr>"

definition stream_response :: "int option \<Rightarrow> response" where
  "stream_response status =
     \<lparr>statusCode = status,
      resp_headers = Some [ascii ''content-length'' \<mapsto> ascii ''100''],
      resp_body = JStream 0\<rparr>"

definition capital_header_response :: response where
  "capital_header_response =
     \<lparr>statusCode = Some 200,
      resp_headers = Some [ascii ''Content-Length'' \<mapsto> ascii ''100''],
      resp_body = JStream 0\<rparr>"

definition buffer_response :: "int option \<Rightarrow> response" where
  "buffer_response status =
     \<lparr>statusCode = status, resp_headers = Some Map.empty,
      resp_body = JBuffer [1, 2, 3, 4, 5, 6, 7]\<rparr>"

definition text_response :: "int option \<Rightarrow> js_string \<Rightarrow> response" where
  "text_response status s =
     \<lparr>statusCode = status, resp_headers = None, resp_body = JString s\<rparr>"

section \<open>Definitions used to state the claims\<close>

text \<open>Header names compared without regard to letter case, as HTTP does.\<close>

definition lower_unit :: "nat \<Rightarrow> nat" where
  "lower_unit c = (if 65 \<le> c \<and> c \<le> 90 then c + 32 else c)"

definition same_header_name :: "js_string \<Rightarrow> js_string \<Rightarrow> bool" where
  "same_header_name a b = (map lower_unit a = map lower_unit b)"

text \<open>Concrete runs: a transport whose download and upload both succeed, and parameters
  whose upload headers spell the Authorization header in capitals.\<close>

definition ok_env :: env where
  "ok_env = sample_env (Inr (stream_response (Some 200))) (Inr (text_response (Some 200) (ascii ''{}'')))"

definition uppercase_auth_params :: params where
  "uppercase_auth_params =
     sample_params\<lparr>uploadHeadersParam :=
       JObject [(ascii ''AUTHORIZATION'', JString (ascii ''Basic abc''))]\<rparr>"

text \<open>Concrete runs: download headers that spell Accept in lower case, parameters with
  throwOnError off, and transports that answer the download with a Buffer.\<close>

definition lowercase_accept_params :: params where
  "lowercase_accept_params =
     sample_params\<lparr>downloadHeadersParam :=
       JObject [(ascii ''accept'', JString (ascii ''text/html''))]\<rparr>"

definition returning_params :: params where
  "returning_params = sample_params\<lparr>throwOnError := False\<rparr>"

definition buffer_404_env :: env where
  "buffer_404_env =
     sample_env (Inr (buffer_response (Some 404))) (Inr (text_response (Some 200) (ascii ''{}'')))"

definition buffer_200_env :: env where
  "buffer_200_env =
     sample_env (Inr (buffer_response (Some 200))) (Inr (text_response (Some 200) (ascii ''{}'')))"

text \<open>
  The choice of Content-Length in the spec's words: the explicit contentLength input
  first, else the download response's content-length header, else none, where a zero
  or non-numeric candidate at either tier counts as absent. The candidate of the
  second tier is given as found by the lookup.
\<close>

definition candidate_length :: "content_length \<Rightarrow> js_number option" where
  "candidate_length c =
     (if isNaN (to_length c) \<or> to_length c = Finite 0 then None else Some (to_length c))"

definition precedence_content_length ::
  "content_length \<Rightarrow> js_string option \<Rightarrow> js_number option" where
  "precedence_content_length explicit responseHeader =
     (case candidate_length explicit of
        Some n \<Rightarrow> Some n
      | None \<Rightarrow>
          (case responseHeader of
             None \<Rightarrow> None
           | Some s \<Rightarrow> candidate_length (CLString s)))"

text \<open>Concrete runs: an explicit contentLength that is not a number, one that is not an
  integer, and a transport whose download response spells its length header with
  capitals.\<close>

definition nonnumeric_length_params :: params where
  "nonnumeric_length_params = sample_params\<lparr>contentLength := CLString (ascii ''abc'')\<rparr>"

definition fractional_length_params :: params where
  "fractional_length_params = sample_params\<lparr>contentLength := CLNumber (Finite (3 / 2))\<rparr>"

definition capital_header_env :: env where
  "capital_header_env =
     sample_env (Inr capital_header_response) (Inr (text_response (Some 200) (ascii ''{}'')))"

text \<open>Concrete runs: an upload URL that is nothing but white space beyond ASCII (a
  no-break space, an em space, a line separator).\<close>

definition blank_upload_params :: params where
  "blank_upload_params = sample_params\<lparr>uploadUrl := [32, 9, 160, 8195, 8232]\<rparr>"

section \<open>Literals\<close>

lemma ascii_eq_iff [simp]: "ascii a = ascii b \<longleftrightarrow> a = b"
  unfolding ascii_def by (rule inj_map_eq_map) (simp add: inj_on_def)

lemma ascii_Nil [simp]: "ascii [] = []"
  by (simp add: ascii_def)

lemma ascii_eq_Nil [simp]: "ascii s = [] \<longleftrightarrow> s = []"
  by (simp add: ascii_def)

lemma length_ascii [simp]: "length (ascii s) = length s"
  by (simp add: ascii_def)

lemma ascii_append: "ascii (a @ b) = ascii a @ ascii b"
  by (simp add: ascii_def)

section \<open>The paths through execute\<close>

lemma js_trim_Nil [simp]: "js_trim [] = []"
  by (simp add: js_trim_def)

lemma execute_entered:
  assumes "js_trim (downloadUrl p) \<noteq> []" and "js_trim (uploadUrl p) \<noteq> []"
    and "parseHeaders e (downloadHeadersParam p) = Inr dh"
    and "parseHeaders e (uploadHeadersParam p) = Inr uh"
  shows "execute e p =
     (case tryBlock e p (finalDownloadHeaders dh) (preparedUploadHeaders e p uh) of
        (issued, Inr item) \<Rightarrow> (issued, Returned item)
      | (issued, Inl err) \<Rightarrow> (issued, catchBlock p err))"
proof -
  from assms(1) have "downloadUrl p \<noteq> []" by auto
  moreover from assms(2) have "uploadUrl p \<noteq> []" by auto
  ultimately show ?thesis
    using assms by (simp add: execute_def)
qed

lemma tryBlock_request_throws:
  "request e (downloadOptions p fdh) = Inl err \<Longrightarrow>
   tryBlock e p fdh fuh = ([downloadOptions p fdh], Inl err)"
  by (simp add: tryBlock_def)

lemma tryBlock_status_failed:
  "request e (downloadOptions p fdh) = Inr dr \<Longrightarrow> statusCode dr = Some c \<Longrightarrow>
   c < 200 \<or> 300 \<le> c \<Longrightarrow>
   tryBlock e p fdh fuh =
     ([downloadOptions p fdh],
      if throwOnError p then Inl (ErrorObject (downloadFailedMessage e c (downloadUrl p)))
      else Inr (downloadFailureRecord e p c))"
  by (simp add: tryBlock_def)

lemma tryBlock_status_passed:
  "request e (downloadOptions p fdh) = Inr dr \<Longrightarrow> \<not> status_failed (statusCode dr) \<Longrightarrow>
   tryBlock e p fdh fuh = streamPhase e p (downloadOptions p fdh) fuh dr"
  by (cases "statusCode dr") (simp_all add: tryBlock_def)

lemma streamPhase_buffer:
  "resp_body dr = JBuffer bs \<Longrightarrow>
   streamPhase e p dOpts fuh dr =
     ([dOpts], Inl (ErrorObject (bufferedMessage e (downloadUrl p) (length bs))))"
  by (simp add: streamPhase_def)

lemma streamPhase_not_streamable:
  "\<not> isBuffer (resp_body dr) \<Longrightarrow> \<not> has_pipe (resp_body dr) \<Longrightarrow>
   streamPhase e p dOpts fuh dr =
     ([dOpts], Inl (notStreamableThrown e (downloadUrl p) (resp_body dr)))"
  by (simp add: streamPhase_def)

lemma streamPhase_stream:
  "resp_body dr = JStream h \<Longrightarrow>
   streamPhase e p dOpts fuh dr =
     uploadPhase e p dOpts (finalUploadHeaders e p dr fuh) (JStream h) (statusCode dr)"
  by (simp add: streamPhase_def)

lemma uploadPhase_issued:
  "fst (uploadPhase e p dOpts fuh ds dStatus) = [dOpts, uploadOptions p fuh ds]"
  by (simp add: uploadPhase_def Let_def split: sum.splits option.splits)

lemma uploadPhase_request_throws:
  "request e (uploadOptions p fuh ds) = Inl err \<Longrightarrow>
   uploadPhase e p dOpts fuh ds dStatus = ([dOpts, uploadOptions p fuh ds], Inl err)"
  by (simp add: uploadPhase_def)

lemma uploadPhase_status_failed:
  "request e (uploadOptions p fuh ds) = Inr ur \<Longrightarrow> statusCode ur = Some c \<Longrightarrow>
   c < 200 \<or> 300 \<le> c \<Longrightarrow>
   uploadPhase e p dOpts fuh ds dStatus =
     ([dOpts, uploadOptions p fuh ds],
      if throwOnError p
      then Inl (ErrorObject (uploadFailedMessage e c (uploadUrl p) (http_method p)))
      else Inr (uploadFailureRecord e p c dStatus))"
  by (simp add: uploadPhase_def)

lemma uploadPhase_status_passed:
  "request e (uploadOptions p fuh ds) = Inr ur \<Longrightarrow> \<not> status_failed (statusCode ur) \<Longrightarrow>
   uploadPhase e p dOpts fuh ds dStatus =
     ([dOpts, uploadOptions p fuh ds],
      Inr (successRecord e p dStatus (statusCode ur) (resp_body ur)))"
  by (cases "statusCode ur") (simp_all add: uploadPhase_def)

text \<open>Once the \<open>try\<close> block is entered the download request is issued, alone or
  followed by the upload request.\<close>

lemma tryBlock_issued:
  "fst (tryBlock e p fdh fuh) = [downloadOptions p fdh] \<or>
   (\<exists>dr h. request e (downloadOptions p fdh) = Inr dr \<and> resp_body dr = JStream h \<and>
      fst (tryBlock e p fdh fuh) =
        [downloadOptions p fdh, uploadOptions p (finalUploadHeaders e p dr fuh) (JStream h)])"
proof (cases "request e (downloadOptions p fdh)")
  case (Inl err)
  then show ?thesis by (simp add: tryBlock_request_throws)
next
  case (Inr dr)
  show ?thesis
  proof (cases "status_failed (statusCode dr)")
    case True
    then obtain c where "statusCode dr = Some c" "c < 200 \<or> 300 \<le> c"
      by (cases "statusCode dr") auto
    with Inr show ?thesis by (simp add: tryBlock_status_failed)
  next
    case False
    with Inr have t: "tryBlock e p fdh fuh = streamPhase e p (downloadOptions p fdh) fuh dr"
      by (rule tryBlock_status_passed)
    show ?thesis
    proof (cases "resp_body dr")
      case (JStream h)
      with t Inr show ?thesis
        by (simp add: streamPhase_stream uploadPhase_issued)
    qed (simp_all add: t streamPhase_def)
  qed
qed

lemma execute_issued:
  assumes "js_trim (downloadUrl p) \<noteq> []" and "js_trim (uploadUrl p) \<noteq> []"
    and "parseHeaders e (downloadHeadersParam p) = Inr dh"
    and "parseHeaders e (uploadHeadersParam p) = Inr uh"
  shows "fst (execute e p) =
           fst (tryBlock e p (finalDownloadHeaders dh) (preparedUploadHeaders e p uh))"
  by (simp add: execute_entered [OF assms] split: prod.splits sum.splits)

subsection \<open>Strings, numbers and messages\<close>

lemma js_trim_empty_iff: "js_trim s = [] \<longleftrightarrow> (\<forall>c \<in> set s. is_whitespace c)"
proof
  assume "js_trim s = []"
  then have "\<forall>c \<in> set (dropWhile is_whitespace s). is_whitespace c"
    by (simp add: js_trim_def dropWhile_eq_Nil_conv)
  then have "dropWhile is_whitespace s = []"
    using hd_dropWhile [of is_whitespace s] hd_in_set [of "dropWhile is_whitespace s"]
    by blast
  then show "\<forall>c \<in> set s. is_whitespace c"
    by (simp add: dropWhile_eq_Nil_conv)
next
  assume "\<forall>c \<in> set s. is_whitespace c"
  then show "js_trim s = []"
    by (auto simp: js_trim_def dest: set_dropWhileD)
qed

lemma parseInt_Nil [simp]: "parseInt [] = NaN"
  by (simp add: parseInt_def)

text \<open>The model of \<open>parseInt\<close> at work: a prefix of digits is read, white space
  beyond ASCII is skipped, and an integer that no double holds is rounded.\<close>

lemma parseInt_examples:
  "parseInt (ascii ''100'') = Finite 100"
  "parseInt (ascii ''12abc'') = Finite 12"
  "parseInt (ascii ''abc'') = NaN"
  "parseInt (160 # ascii ''42'') = Finite 42"
  "parseInt (ascii ''-5'') = Finite (- 5)"
  by (simp_all add: parseInt_def Let_def is_whitespace_def is_digit_def ascii_def
      digits_value_def to_Number_def)

lemma bit_length_54: "bit_length 9007199254740993 = 54"
  by (simp add: bit_length.simps)

lemma parseInt_rounds:
  "parseInt (ascii ''9007199254740993'') = Finite 9007199254740992"
  by (simp add: parseInt_def Let_def is_whitespace_def is_digit_def ascii_def
      digits_value_def to_Number_def bit_length_54)

lemma is_safe_integer_of_int: "\<bar>i\<bar> < 2 ^ 53 \<Longrightarrow> is_safe_integer (of_int i)"
proof -
  assume "\<bar>i\<bar> < 2 ^ 53"
  then have "rat_of_int \<bar>i\<bar> < rat_of_int (2 ^ 53)"
    by (simp only: of_int_less_iff)
  then show ?thesis
    by (simp add: is_safe_integer_def)
qed

text \<open>A status code or byte count below \<open>2^53\<close> is written with its decimal digits.\<close>

lemma String_int_safe: "\<bar>i\<bar> < 2 ^ 53 \<Longrightarrow> String_int e i = decimal i"
  by (simp add: String_int_def String_number_def Number_toString_def is_safe_integer_of_int)

lemma decimal_examples:
  "decimal 404 = ascii ''404''"
  "decimal 100 = ascii ''100''"
  "decimal 7 = ascii ''7''"
  by code_simp+

lemma String_int_examples [simp]:
  "String_int e 404 = ascii ''404''"
  "String_int e 7 = ascii ''7''"
  by (simp_all add: String_int_safe decimal_examples)

lemma String_number_special [simp]:
  "String_number e NaN = ascii ''NaN''"
  "String_number e Infinity = ascii ''Infinity''"
  "String_number e (Finite 100) = ascii ''100''"
  by (simp_all add: String_number_def Number_toString_def is_safe_integer_def decimal_examples)

lemma seven_bytes: "Suc (Suc (Suc (Suc (Suc (Suc (Suc 0)))))) = 7"
  by simp

lemma sublist_inside: "sublist x m \<Longrightarrow> sublist x (a @ m @ b)"
proof -
  assume "sublist x m"
  then obtain ps ss where "m = ps @ x @ ss" by (auto simp: sublist_def)
  then have "a @ m @ b = (a @ ps) @ x @ (ss @ b)" by simp
  then show ?thesis unfolding sublist_def by blast
qed

lemma downloadFailedMessage_status:
  "js_includes (downloadFailedMessage e c u) (String_int e c)"
  unfolding js_includes_def downloadFailedMessage_def by (rule sublist_appendI)

lemma downloadFailedMessage_url:
  "js_includes (downloadFailedMessage e c u) u"
proof -
  have "sublist u
     ((ascii ''Download failed with HTTP '' @ String_int e c @ ascii '' from '') @ u
      @ ascii ''. Please verify the download URL is accessible and returns a successful response.'')"
    by (rule sublist_appendI)
  then show ?thesis
    by (simp add: js_includes_def downloadFailedMessage_def)
qed

lemma bufferedMessage_length:
  "js_includes (bufferedMessage e d n) (ascii ''Buffer ('' @ String_int e (int n) @ ascii '' bytes)'')"
proof -
  have "bufferedMessage e d n =
      (ascii ''Download response from '' @ d @ ascii '' was buffered instead of streamed. ''
        @ ascii ''The response body is a '')
      @ (ascii ''Buffer ('' @ String_int e (int n) @ ascii '' bytes)'')
      @ (ascii '', which means the entire file was loaded into memory. ''
         @ ascii ''This defeats the purpose of streaming. Please ensure the download URL returns a stream. ''
         @ ascii ''Check that 'Accept: */*' header is set and encoding is null.'')"
    by (simp add: bufferedMessage_def ascii_def)
  then show ?thesis
    unfolding js_includes_def by (simp only: sublist_appendI)
qed

lemma js_includes_enhanced:
  "js_includes m x \<Longrightarrow> js_includes (enhancedMessage m d u) x"
proof -
  assume a: "js_includes m x"
  have "sublist x (ascii ''File transfer failed: '' @ m
      @ (ascii ''. Download URL: '' @ d @ ascii '', Upload URL: '' @ u))"
    using a unfolding js_includes_def by (rule sublist_inside)
  with a show ?thesis
    by (simp add: enhancedMessage_def js_includes_def)
qed

lemma enhancedMessage_holds_message: "js_includes (enhancedMessage m d u) m"
  by (rule js_includes_enhanced) (simp add: js_includes_def)

lemma enhancedMessage_unchanged_iff:
  "enhancedMessage m d u = m \<longleftrightarrow>
     js_includes m (ascii ''Download URL'') \<or> js_includes m (ascii ''Upload URL'')"
proof -
  have "length (ascii ''File transfer failed: '' @ m @ ascii ''. Download URL: '' @ d
        @ ascii '', Upload URL: '' @ u) \<noteq> length m"
    by simp
  then have "ascii ''File transfer failed: '' @ m @ ascii ''. Download URL: '' @ d
        @ ascii '', Upload URL: '' @ u \<noteq> m"
    by metis
  then show ?thesis
    by (simp add: enhancedMessage_def)
qed

subsection \<open>The header steps, key by key\<close>

lemma options_fields [simp]:
  "req_method (downloadOptions p fdh) = ascii ''GET''"
  "url (downloadOptions p fdh) = downloadUrl p"
  "headers (downloadOptions p fdh) = fdh"
  "req_method (uploadOptions p fuh ds) = http_method p"
  "url (uploadOptions p fuh ds) = uploadUrl p"
  "headers (uploadOptions p fuh ds) = fuh"
  "body (uploadOptions p fuh ds) = ds"
  by (simp_all add: downloadOptions_def uploadOptions_def)

lemma setContentLength_other:
  "k \<noteq> ascii ''Content-Length'' \<Longrightarrow> setContentLength e c h k = h k"
  by (simp add: setContentLength_def)

lemma addProvidedContentLength_other:
  "k \<noteq> ascii ''Content-Length'' \<Longrightarrow> addProvidedContentLength e c h k = h k"
  by (simp add: addProvidedContentLength_def setContentLength_other)

lemma addActualContentLength_other:
  "k \<noteq> ascii ''Content-Length'' \<Longrightarrow> addActualContentLength e c rh h k = h k"
  by (simp add: addActualContentLength_def setContentLength_other split: option.splits)

lemma finalUploadHeaders_other:
  "k \<noteq> ascii ''Content-Length'' \<Longrightarrow> finalUploadHeaders e p dr h k = h k"
  by (simp add: finalUploadHeaders_def addActualContentLength_other)

lemma addBearer_other:
  "k \<noteq> ascii ''Authorization'' \<Longrightarrow> addBearer token h k = h k"
  by (simp add: addBearer_def split: option.splits)

lemma preparedUploadHeaders_other:
  "k \<noteq> ascii ''Content-Length'' \<Longrightarrow>
   preparedUploadHeaders e p uh k =
     addBearer (extractBearerToken e (uploadUrl p)) (mergedUploadHeaders uh) k"
  by (simp add: preparedUploadHeaders_def addProvidedContentLength_other)

lemma mergedUploadHeaders_lookup:
  "mergedUploadHeaders uh k =
     (case uh k of
        Some v \<Rightarrow> Some v
      | None \<Rightarrow>
          if k = ascii ''Content-Type'' then Some (ascii ''application/octet-stream'') else None)"
  by (simp add: mergedUploadHeaders_def map_add_def split: option.splits)

lemma finalDownloadHeaders_lookup:
  "finalDownloadHeaders dh k =
     (case dh k of
        Some v \<Rightarrow> Some v
      | None \<Rightarrow> if k = ascii ''Accept'' then Some (ascii ''*/*'') else None)"
  by (simp add: finalDownloadHeaders_def map_add_def split: option.splits)

text \<open>The value a candidate writes, if it writes one.\<close>

lemma setContentLength_lookup:
  "setContentLength e c h (ascii ''Content-Length'') =
     (if \<not> isNaN (to_length c) \<and> greater_than_zero (to_length c)
      then Some (String_number e (to_length c))
      else h (ascii ''Content-Length''))"
  by (simp add: setContentLength_def)

lemma preparedUploadHeaders_content_length:
  "preparedUploadHeaders e p uh (ascii ''Content-Length'') =
     (if cl_truthy (contentLength p) \<and> \<not> isNaN (to_length (contentLength p))
         \<and> greater_than_zero (to_length (contentLength p))
      then Some (String_number e (to_length (contentLength p)))
      else uh (ascii ''Content-Length''))"
  by (simp add: preparedUploadHeaders_def addProvidedContentLength_def setContentLength_lookup
      addBearer_other mergedUploadHeaders_lookup split: option.splits)

lemma finalUploadHeaders_content_length:
  "finalUploadHeaders e p dr (preparedUploadHeaders e p uh) (ascii ''Content-Length'') =
     (if cl_truthy (contentLength p)
      then (if \<not> isNaN (to_length (contentLength p))
               \<and> greater_than_zero (to_length (contentLength p))
            then Some (String_number e (to_length (contentLength p)))
            else uh (ascii ''Content-Length''))
      else if header_truthy (uh (ascii ''Content-Length'')) then uh (ascii ''Content-Length'')
      else (case (case resp_headers dr of None \<Rightarrow> None
                  | Some rh \<Rightarrow> rh (ascii ''content-length'')) of
              None \<Rightarrow> uh (ascii ''Content-Length'')
            | Some s \<Rightarrow>
                if \<not> isNaN (parseInt s) \<and> greater_than_zero (parseInt s)
                then Some (String_number e (parseInt s))
                else uh (ascii ''Content-Length'')))"
proof (cases "cl_truthy (contentLength p)")
  case True
  then show ?thesis
    by (simp add: finalUploadHeaders_def addActualContentLength_def actualContentLength_def
        setContentLength_lookup preparedUploadHeaders_content_length split: option.splits)
next
  case False
  show ?thesis
  proof (cases "case resp_headers dr of None \<Rightarrow> None | Some rh \<Rightarrow> rh (ascii ''content-length'')")
    case None
    with False show ?thesis
      by (auto simp: finalUploadHeaders_def addActualContentLength_def actualContentLength_def
          preparedUploadHeaders_content_length split: option.splits)
  next
    case (Some s)
    with False show ?thesis
      by (cases "s = []")
         (auto simp: finalUploadHeaders_def addActualContentLength_def actualContentLength_def
            setContentLength_lookup preparedUploadHeaders_content_length to_length_def
            split: option.splits)
  qed
qed

subsection \<open>The outcome of execute on each path\<close>

lemma execute_stream_issued:
  assumes "js_trim (downloadUrl p) \<noteq> []" and "js_trim (uploadUrl p) \<noteq> []"
    and "parseHeaders e (downloadHeadersParam p) = Inr dh"
    and "parseHeaders e (uploadHeadersParam p) = Inr uh"
    and "request e (downloadOptions p (finalDownloadHeaders dh)) = Inr dr"
    and "\<not> status_failed (statusCode dr)"
    and "resp_body dr = JStream h"
  shows "fst (execute e p) =
     [downloadOptions p (finalDownloadHeaders dh),
      uploadOptions p (finalUploadHeaders e p dr (preparedUploadHeaders e p uh)) (JStream h)]"
  by (simp add: execute_issued [OF assms(1-4)] tryBlock_status_passed [OF assms(5,6)]
      streamPhase_stream [OF assms(7)] uploadPhase_issued)

lemma execute_success:
  assumes "js_trim (downloadUrl p) \<noteq> []" and "js_trim (uploadUrl p) \<noteq> []"
    and "parseHeaders e (downloadHeadersParam p) = Inr dh"
    and "parseHeaders e (uploadHeadersParam p) = Inr uh"
    and "request e (downloadOptions p (finalDownloadHeaders dh)) = Inr dr"
    and "\<not> status_failed (statusCode dr)"
    and "resp_body dr = JStream h"
    and "request e (uploadOptions p (finalUploadHeaders e p dr (preparedUploadHeaders e p uh))
           (JStream h)) = Inr ur"
    and "\<not> status_failed (statusCode ur)"
  shows "execute e p =
     ([downloadOptions p (finalDownloadHeaders dh),
       uploadOptions p (finalUploadHeaders e p dr (preparedUploadHeaders e p uh)) (JStream h)],
      Returned (successRecord e p (statusCode dr) (statusCode ur) (resp_body ur)))"
  by (simp add: execute_entered [OF assms(1-4)] tryBlock_status_passed [OF assms(5,6)]
      streamPhase_stream [OF assms(7)] uploadPhase_status_passed [OF assms(8,9)])

lemma successRecord_fields [simp]:
  "success (json (successRecord e p ds us b)) = Some True"
  "downloadStatus (json (successRecord e p ds us b)) = Some (status_or_200 ds)"
  "uploadStatus (json (successRecord e p ds us b)) = Some (status_or_200 us)"
  "uploadResponse (json (successRecord e p ds us b)) = decodeUploadBody (JSON_parse e) b"
  by (simp_all add: successRecord_def)

lemma execute_caught:
  assumes "js_trim (downloadUrl p) \<noteq> []" and "js_trim (uploadUrl p) \<noteq> []"
    and "parseHeaders e (downloadHeadersParam p) = Inr dh"
    and "parseHeaders e (uploadHeadersParam p) = Inr uh"
    and "tryBlock e p (finalDownloadHeaders dh) (preparedUploadHeaders e p uh) = (issued, Inl err)"
  shows "execute e p =
     (issued,
      if throwOnError p
      then Raised (ErrorObject (enhancedMessage (thrown_message err) (downloadUrl p) (uploadUrl p)))
      else Returned (caughtRecord p
             (enhancedMessage (thrown_message err) (downloadUrl p) (uploadUrl p))))"
  by (simp add: execute_entered [OF assms(1-4)] assms(5) catchBlock_def)

lemma execute_download_throws:
  assumes "js_trim (downloadUrl p) \<noteq> []" and "js_trim (uploadUrl p) \<noteq> []"
    and "parseHeaders e (downloadHeadersParam p) = Inr dh"
    and "parseHeaders e (uploadHeadersParam p) = Inr uh"
    and "request e (downloadOptions p (finalDownloadHeaders dh)) = Inl err"
  shows "execute e p =
     ([downloadOptions p (finalDownloadHeaders dh)],
      if throwOnError p
      then Raised (ErrorObject (enhancedMessage (thrown_message err) (downloadUrl p) (uploadUrl p)))
      else Returned (caughtRecord p
             (enhancedMessage (thrown_message err) (downloadUrl p) (uploadUrl p))))"
  by (rule execute_caught [OF assms(1-4) tryBlock_request_throws [OF assms(5)]])

lemma execute_download_status_failed:
  assumes "js_trim (downloadUrl p) \<noteq> []" and "js_trim (uploadUrl p) \<noteq> []"
    and "parseHeaders e (downloadHeadersParam p) = Inr dh"
    and "parseHeaders e (uploadHeadersParam p) = Inr uh"
    and "request e (downloadOptions p (finalDownloadHeaders dh)) = Inr dr"
    and "statusCode dr = Some c" and "c < 200 \<or> 300 \<le> c"
  shows "execute e p =
     ([downloadOptions p (finalDownloadHeaders dh)],
      if throwOnError p
      then Raised (ErrorObject
             (enhancedMessage (downloadFailedMessage e c (downloadUrl p))
                (downloadUrl p) (uploadUrl p)))
      else Returned (downloadFailureRecord e p c))"
  by (simp add: execute_entered [OF assms(1-4)] tryBlock_status_failed [OF assms(5-7)]
      catchBlock_def)

lemma execute_buffer:
  assumes "js_trim (downloadUrl p) \<noteq> []" and "js_trim (uploadUrl p) \<noteq> []"
    and "parseHeaders e (downloadHeadersParam p) = Inr dh"
    and "parseHeaders e (uploadHeadersParam p) = Inr uh"
    and "request e (downloadOptions p (finalDownloadHeaders dh)) = Inr dr"
    and "\<not> status_failed (statusCode dr)"
    and "resp_body dr = JBuffer bs"
  shows "execute e p =
     ([downloadOptions p (finalDownloadHeaders dh)],
      if throwOnError p
      then Raised (ErrorObject
             (enhancedMessage (bufferedMessage e (downloadUrl p) (length bs))
                (downloadUrl p) (uploadUrl p)))
      else Returned (caughtRecord p
             (enhancedMessage (bufferedMessage e (downloadUrl p) (length bs))
                (downloadUrl p) (uploadUrl p))))"
proof -
  have "tryBlock e p (finalDownloadHeaders dh) (preparedUploadHeaders e p uh) =
      ([downloadOptions p (finalDownloadHeaders dh)],
       Inl (ErrorObject (bufferedMessage e (downloadUrl p) (length bs))))"
    by (simp add: tryBlock_status_passed [OF assms(5,6)] streamPhase_buffer [OF assms(7)])
  from execute_caught [OF assms(1-4) this] show ?thesis by simp
qed

lemma execute_not_streamable:
  assumes "js_trim (downloadUrl p) \<noteq> []" and "js_trim (uploadUrl p) \<noteq> []"
    and "parseHeaders e (downloadHeadersParam p) = Inr dh"
    and "parseHeaders e (uploadHeadersParam p) = Inr uh"
    and "request e (downloadOptions p (finalDownloadHeaders dh)) = Inr dr"
    and "\<not> status_failed (statusCode dr)"
    and "\<not> isBuffer (resp_body dr)" and "\<not> has_pipe (resp_body dr)"
  shows "execute e p =
     ([downloadOptions p (finalDownloadHeaders dh)],
      if throwOnError p
      then Raised (ErrorObject
             (enhancedMessage
                (thrown_message (notStreamableThrown e (downloadUrl p) (resp_body dr)))
                (downloadUrl p) (uploadUrl p)))
      else Returned (caughtRecord p
             (enhancedMessage
                (thrown_message (notStreamableThrown e (downloadUrl p) (resp_body dr)))
                (downloadUrl p) (uploadUrl p))))"
proof -
  have "tryBlock e p (finalDownloadHeaders dh) (preparedUploadHeaders e p uh) =
      ([downloadOptions p (finalDownloadHeaders dh)],
       Inl (notStreamableThrown e (downloadUrl p) (resp_body dr)))"
    by (simp add: tryBlock_status_passed [OF assms(5,6)]
        streamPhase_not_streamable [OF assms(7,8)])
  from execute_caught [OF assms(1-4) this] show ?thesis by simp
qed

lemma notStreamableThrown_message:
  "bodyPreview e v = Inr preview \<Longrightarrow> js_ToString e (bodyConstructor v) = Inr constructorText \<Longrightarrow>
   notStreamableThrown e d v =
     ErrorObject (notStreamableMessage d (js_typeof v) constructorText preview)"
  by (simp add: notStreamableThrown_def)

lemma execute_upload_throws:
  assumes "js_trim (downloadUrl p) \<noteq> []" and "js_trim (uploadUrl p) \<noteq> []"
    and "parseHeaders e (downloadHeadersParam p) = Inr dh"
    and "parseHeaders e (uploadHeadersParam p) = Inr uh"
    and "request e (downloadOptions p (finalDownloadHeaders dh)) = Inr dr"
    and "\<not> status_failed (statusCode dr)"
    and "resp_body dr = JStream h"
    and "request e (uploadOptions p (finalUploadHeaders e p dr (preparedUploadHeaders e p uh))
           (JStream h)) = Inl err"
  shows "snd (execute e p) =
     (if throwOnError p
      then Raised (ErrorObject (enhancedMessage (thrown_message err) (downloadUrl p) (uploadUrl p)))
      else Returned (caughtRecord p
             (enhancedMessage (thrown_message err) (downloadUrl p) (uploadUrl p))))"
proof -
  have "tryBlock e p (finalDownloadHeaders dh) (preparedUploadHeaders e p uh) =
      ([downloadOptions p (finalDownloadHeaders dh),
        uploadOptions p (finalUploadHeaders e p dr (preparedUploadHeaders e p uh)) (JStream h)],
       Inl err)"
    by (simp add: tryBlock_status_passed [OF assms(5,6)] streamPhase_stream [OF assms(7)]
        uploadPhase_request_throws [OF assms(8)])
  from execute_caught [OF assms(1-4) this] show ?thesis by simp
qed

lemma execute_upload_status_failed:
  assumes "js_trim (downloadUrl p) \<noteq> []" and "js_trim (uploadUrl p) \<noteq> []"
    and "parseHeaders e (downloadHeadersParam p) = Inr dh"
    and "parseHeaders e (uploadHeadersParam p) = Inr uh"
    and "request e (downloadOptions p (finalDownloadHeaders dh)) = Inr dr"
    and "\<not> status_failed (statusCode dr)"
    and "resp_body dr = JStream h"
    and "request e (uploadOptions p (finalUploadHeaders e p dr (preparedUploadHeaders e p uh))
           (JStream h)) = Inr ur"
    and "statusCode ur = Some c" and "c < 200 \<or> 300 \<le> c"
  shows "snd (execute e p) =
     (if throwOnError p
      then Raised (ErrorObject
             (enhancedMessage (uploadFailedMessage e c (uploadUrl p) (http_method p))
                (downloadUrl p) (uploadUrl p)))
      else Returned (uploadFailureRecord e p c (statusCode dr)))"
  by (simp add: execute_entered [OF assms(1-4)] tryBlock_status_passed [OF assms(5,6)]
      streamPhase_stream [OF assms(7)] uploadPhase_status_failed [OF assms(8-10)]
      catchBlock_def)

subsection \<open>The sample collaborators\<close>

lemma sample_params_fields [simp]:
  "itemIndex sample_params = 0"
  "downloadUrl sample_params = ascii ''https://files.example/a.bin''"
  "uploadUrl sample_params = ascii ''https://up.example/put?bearer=ABC123''"
  "contentLength sample_params = CLString []"
  "http_method sample_params = ascii ''POST''"
  "downloadHeadersParam sample_params = JObject []"
  "uploadHeadersParam sample_params = JObject []"
  "throwOnError sample_params = True"
  by (simp_all add: sample_params_def)

lemma sample_urls_not_blank [simp]:
  "js_trim (ascii ''https://files.example/a.bin'') \<noteq> []"
  "js_trim (ascii ''https://up.example/put?bearer=ABC123'') \<noteq> []"
  by (simp_all add: js_trim_empty_iff is_whitespace_def ascii_def)

lemma sample_env_fields [simp]:
  "parseHeaders (sample_env d u) (JObject kvs) = Inr (header_entries sample_JSON_stringify kvs)"
  "extractBearerToken (sample_env d u) = extractBearerToken_model"
  "request (sample_env d u) opts = (if req_method opts = ascii ''GET'' then d else u)"
  "JSON_parse (sample_env d u) = sample_JSON_parse"
  "JSON_stringify (sample_env d u) = sample_JSON_stringify"
  "Number_digits (sample_env d u) = sample_Number_digits"
  "String_object (sample_env d u) = sample_String_object"
  by (simp_all add: sample_env_def parseHeaders_model_def canned_request_def)

lemma header_entries_Nil [simp]: "header_entries coerce [] = Map.empty"
  by (simp add: header_entries_def)

lemma sample_token [simp]:
  "extractBearerToken_model (ascii ''https://up.example/put?bearer=ABC123'') = Some (ascii ''ABC123'')"
  by code_simp

lemma sample_responses [simp]:
  "statusCode (stream_response st) = st"
  "resp_body (stream_response st) = JStream 0"
  "resp_headers (stream_response st) = Some [ascii ''content-length'' \<mapsto> ascii ''100'']"
  "statusCode (buffer_response st) = st"
  "resp_body (buffer_response st) = JBuffer [1, 2, 3, 4, 5, 6, 7]"
  "statusCode (text_response st s) = st"
  "resp_body (text_response st s) = JString s"
  "statusCode capital_header_response = Some 200"
  "resp_body capital_header_response = JStream 0"
  "resp_headers capital_header_response = Some [ascii ''Content-Length'' \<mapsto> ascii ''100'']"
  by (simp_all add: stream_response_def buffer_response_def text_response_def
      capital_header_response_def)

lemma ok_env_fields [simp]:
  "parseHeaders ok_env (JObject kvs) = Inr (header_entries sample_JSON_stringify kvs)"
  "extractBearerToken ok_env = extractBearerToken_model"
  "request ok_env opts =
     (if req_method opts = ascii ''GET'' then Inr (stream_response (Some 200))
      else Inr (text_response (Some 200) (ascii ''{}'')))"
  "JSON_parse ok_env = sample_JSON_parse"
  "Number_digits ok_env = sample_Number_digits"
  by (simp_all add: ok_env_def)

lemma buffer_env_fields [simp]:
  "parseHeaders buffer_404_env (JObject kvs) = Inr (header_entries sample_JSON_stringify kvs)"
  "request buffer_404_env opts =
     (if req_method opts = ascii ''GET'' then Inr (buffer_response (Some 404))
      else Inr (text_response (Some 200) (ascii ''{}'')))"
  "parseHeaders buffer_200_env (JObject kvs) = Inr (header_entries sample_JSON_stringify kvs)"
  "request buffer_200_env opts =
     (if req_method opts = ascii ''GET'' then Inr (buffer_response (Some 200))
      else Inr (text_response (Some 200) (ascii ''{}'')))"
  by (simp_all add: buffer_404_env_def buffer_200_env_def)

lemma uppercase_auth_params_fields [simp]:
  "downloadUrl uppercase_auth_params = ascii ''https://files.example/a.bin''"
  "uploadUrl uppercase_auth_params = ascii ''https://up.example/put?bearer=ABC123''"
  "contentLength uppercase_auth_params = CLString []"
  "http_method uppercase_auth_params = ascii ''POST''"
  "downloadHeadersParam uppercase_auth_params = JObject []"
  "uploadHeadersParam uppercase_auth_params = JObject [(ascii ''AUTHORIZATION'', JString (ascii ''Basic abc''))]"
  by (simp_all add: uppercase_auth_params_def)

lemma lowercase_accept_params_fields [simp]:
  "downloadUrl lowercase_accept_params = ascii ''https://files.example/a.bin''"
  "uploadUrl lowercase_accept_params = ascii ''https://up.example/put?bearer=ABC123''"
  "downloadHeadersParam lowercase_accept_params = JObject [(ascii ''accept'', JString (ascii ''text/html''))]"
  "uploadHeadersParam lowercase_accept_params = JObject []"
  by (simp_all add: lowercase_accept_params_def)

lemma returning_params_fields [simp]:
  "downloadUrl returning_params = ascii ''https://files.example/a.bin''"
  "uploadUrl returning_params = ascii ''https://up.example/put?bearer=ABC123''"
  "downloadHeadersParam returning_params = JObject []"
  "uploadHeadersParam returning_params = JObject []"
  "throwOnError returning_params = False"
  by (simp_all add: returning_params_def)

lemma nonnumeric_length_params_fields [simp]:
  "downloadUrl nonnumeric_length_params = ascii ''https://files.example/a.bin''"
  "uploadUrl nonnumeric_length_params = ascii ''https://up.example/put?bearer=ABC123''"
  "downloadHeadersParam nonnumeric_length_params = JObject []"
  "uploadHeadersParam nonnumeric_length_params = JObject []"
  "contentLength nonnumeric_length_params = CLString (ascii ''abc'')"
  by (simp_all add: nonnumeric_length_params_def)

lemma fractional_length_params_fields [simp]:
  "downloadUrl fractional_length_params = ascii ''https://files.example/a.bin''"
  "uploadUrl fractional_length_params = ascii ''https://up.example/put?bearer=ABC123''"
  "downloadHeadersParam fractional_length_params = JObject []"
  "uploadHeadersParam fractional_length_params = JObject []"
  "contentLength fractional_length_params = CLNumber (Finite (3 / 2))"
  by (simp_all add: fractional_length_params_def)

lemma blank_upload_params_fields [simp]:
  "downloadUrl blank_upload_params = ascii ''https://files.example/a.bin''"
  "uploadUrl blank_upload_params = [32, 9, 160, 8195, 8232]"
  by (simp_all add: blank_upload_params_def)

lemma capital_header_env_fields [simp]:
  "parseHeaders capital_header_env (JObject kvs) = Inr (header_entries sample_JSON_stringify kvs)"
  "request capital_header_env opts =
     (if req_method opts = ascii ''GET'' then Inr capital_header_response
      else Inr (text_response (Some 200) (ascii ''{}'')))"
  by (simp_all add: capital_header_env_def)

lemma same_header_name_authorization:
  "same_header_name (ascii ''Authorization'') (ascii ''Authorization'')"
  "same_header_name (ascii ''authorization'') (ascii ''Authorization'')"
  "same_header_name (ascii ''AUTHORIZATION'') (ascii ''Authorization'')"
  by (simp_all add: same_header_name_def lower_unit_def ascii_def)

section \<open>The claims\<close>

text \<open>
  C1, as amended. When the download response passes the status check (its status code
  is undefined or in [200, 300)) and its body is a Buffer, the transfer fails with the
  buffered-response error, whose message holds the Buffer's byte length: raised when
  throwOnError is true, returned in the error field of a record with success false
  otherwise. Only the download request has been issued.
\<close>

theorem buffered_body_fails_after_status_check:
  assumes "js_trim (downloadUrl p) \<noteq> []" and "js_trim (uploadUrl p) \<noteq> []"
    and "parseHeaders e (downloadHeadersParam p) = Inr dh"
    and "parseHeaders e (uploadHeadersParam p) = Inr uh"
    and "request e (downloadOptions p (finalDownloadHeaders dh)) = Inr dr"
    and "statusCode dr = None \<or> (\<exists>c. statusCode dr = Some c \<and> 200 \<le> c \<and> c < 300)"
    and "resp_body dr = JBuffer bs"
  shows "\<exists>m. fst (execute e p) = [downloadOptions p (finalDownloadHeaders dh)]
     \<and> js_includes m (ascii ''Buffer ('' @ String_int e (int (length bs)) @ ascii '' bytes)'')
     \<and> (length bs < 2 ^ 53 \<longrightarrow>
          js_includes m (ascii ''Buffer ('' @ decimal (int (length bs)) @ ascii '' bytes)''))
     \<and> js_includes m (bufferedMessage e (downloadUrl p) (length bs))
     \<and> (throwOnError p \<longrightarrow> snd (execute e p) = Raised (ErrorObject m))
     \<and> (\<not> throwOnError p \<longrightarrow>
          (\<exists>item. snd (execute e p) = Returned item \<and> error (json item) = Some m
             \<and> success (json item) = Some False))"
proof -
  from assms(6) have d: "\<not> status_failed (statusCode dr)" by auto
  let ?b = "bufferedMessage e (downloadUrl p) (length bs)"
  let ?m = "enhancedMessage ?b (downloadUrl p) (uploadUrl p)"
  have "js_includes ?b ?b" by (simp add: js_includes_def)
  then have 1: "js_includes ?m ?b" by (rule js_includes_enhanced)
  have 2: "js_includes ?m (ascii ''Buffer ('' @ String_int e (int (length bs)) @ ascii '' bytes)'')"
    using bufferedMessage_length by (rule js_includes_enhanced)
  have 3: "length bs < 2 ^ 53 \<Longrightarrow> String_int e (int (length bs)) = decimal (int (length bs))"
    by (rule String_int_safe) simp
  show ?thesis
    using 1 2 3
    by (intro exI [of _ ?m]) (auto simp: execute_buffer [OF assms(1-5) d assms(7)] caughtRecord_def)
qed

theorem buffered_body_fails_after_status_check_witness:
  "resp_body (buffer_response (Some 200)) = JBuffer [1, 2, 3, 4, 5, 6, 7]
   \<and> (\<exists>m. fst (execute buffer_200_env returning_params) =
              [downloadOptions returning_params (finalDownloadHeaders Map.empty)]
        \<and> js_includes m (ascii ''Buffer (7 bytes)'')
        \<and> (\<exists>item. snd (execute buffer_200_env returning_params) = Returned item
              \<and> error (json item) = Some m \<and> success (json item) = Some False))"
proof -
  have l: "int (length [1, 2, 3, 4, 5, 6, 7::nat]) = 7"
    by simp
  have a: "ascii ''Buffer ('' @ ascii ''7'' @ ascii '' bytes)'' = ascii ''Buffer (7 bytes)''"
    by (simp add: ascii_def)
  show ?thesis
    using buffered_body_fails_after_status_check
      [of returning_params buffer_200_env Map.empty Map.empty "buffer_response (Some 200)"
          "[1, 2, 3, 4, 5, 6, 7]"]
    unfolding l by (simp add: a, blast)
qed

text \<open>
  C1, counterexample. The download response has status 404 and a Buffer of 7 bytes as
  its body, throwOnError is false. The outcome is the download status failure record;
  its message does not hold the byte length.
\<close>

theorem status_failure_precedes_buffer_check:
  "isBuffer (resp_body (buffer_response (Some 404)))
   \<and> buffer_length (resp_body (buffer_response (Some 404))) = 7
   \<and> snd (execute buffer_404_env returning_params) =
       Returned (downloadFailureRecord buffer_404_env returning_params 404)
   \<and> error (json (downloadFailureRecord buffer_404_env returning_params 404)) =
       Some (ascii ''Download failed with HTTP '' @ ascii ''404'' @ ascii '' from ''
             @ ascii ''https://files.example/a.bin''
             @ ascii ''. Please verify the download URL is accessible and returns a successful response.'')
   \<and> \<not> js_includes
         (ascii ''Download failed with HTTP '' @ ascii ''404'' @ ascii '' from ''
          @ ascii ''https://files.example/a.bin''
          @ ascii ''. Please verify the download URL is accessible and returns a successful response.'')
         (ascii ''7'')"
proof -
  have x: "execute buffer_404_env returning_params =
     ([downloadOptions returning_params (finalDownloadHeaders Map.empty)],
      if throwOnError returning_params
      then Raised (ErrorObject
             (enhancedMessage
                (downloadFailedMessage buffer_404_env 404 (downloadUrl returning_params))
                (downloadUrl returning_params) (uploadUrl returning_params)))
      else Returned (downloadFailureRecord buffer_404_env returning_params 404))"
    by (rule execute_download_status_failed [where dr = "buffer_response (Some 404)"]) simp_all
  have n: "\<not> js_includes
      (ascii ''Download failed with HTTP '' @ ascii ''404'' @ ascii '' from ''
       @ ascii ''https://files.example/a.bin''
       @ ascii ''. Please verify the download URL is accessible and returns a successful response.'')
      (ascii ''7'')"
    by code_simp
  show ?thesis
    by (simp add: x n downloadFailureRecord_def downloadFailedMessage_def)
qed

text \<open>
  C2, as amended. On the upload request the Content-Length header is set as follows.
  A candidate writes the header when it is a number greater than zero (a number as it
  is, a string through parseInt at base 10), and the header is then String of that
  number: the decimal digits for an integer below 2^53. An explicit contentLength that
  is a non-empty string, or a number other than NaN and zero, is the only candidate:
  when it does not write the header, the header stays as the caller's upload headers
  had it and the response header is not consulted. With an empty, zero or NaN explicit
  contentLength, a non-empty Content-Length of the caller's upload headers stays;
  failing that, the candidate is the download response's header under the exact key
  content-length; when that is missing or does not write the header, the header stays
  as the caller's upload headers had it (absent, if they had none).
\<close>

theorem content_length_choice:
  assumes "js_trim (downloadUrl p) \<noteq> []" and "js_trim (uploadUrl p) \<noteq> []"
    and "parseHeaders e (downloadHeadersParam p) = Inr dh"
    and "parseHeaders e (uploadHeadersParam p) = Inr uh"
    and "request e (downloadOptions p (finalDownloadHeaders dh)) = Inr dr"
    and "\<not> status_failed (statusCode dr)"
    and "resp_body dr = JStream h"
  shows "\<exists>u. fst (execute e p) = [downloadOptions p (finalDownloadHeaders dh), u]
     \<and> req_method u = http_method p
     \<and> headers u (ascii ''Content-Length'') =
         (let kept = uh (ascii ''Content-Length'');
              written = (\<lambda>n. case n of
                   Finite r \<Rightarrow> if 0 < r then Some (String_number e (Finite r)) else kept
                 | Infinity \<Rightarrow> Some (ascii ''Infinity'')
                 | NegInfinity \<Rightarrow> kept
                 | NaN \<Rightarrow> kept);
              from_response =
                (if kept \<noteq> None \<and> kept \<noteq> Some [] then kept
                 else case resp_headers dr of
                        None \<Rightarrow> kept
                      | Some rh \<Rightarrow>
                          (case rh (ascii ''content-length'') of
                             None \<Rightarrow> kept
                           | Some s \<Rightarrow> written (parseInt s)))
          in case contentLength p of
               CLString s \<Rightarrow> if s = [] then from_response else written (parseInt s)
             | CLNumber n \<Rightarrow> if n = NaN \<or> n = Finite 0 then from_response else written n)
     \<and> (\<forall>i. 0 < i \<and> i < 2 ^ 53 \<longrightarrow> String_number e (Finite (of_int i)) = decimal i)"
proof -
  let ?kept = "uh (ascii ''Content-Length'')"
  let ?written = "\<lambda>n. case n of
       Finite r \<Rightarrow> if 0 < r then Some (String_number e (Finite r)) else ?kept
     | Infinity \<Rightarrow> Some (ascii ''Infinity'')
     | NegInfinity \<Rightarrow> ?kept
     | NaN \<Rightarrow> ?kept"
  have w: "(if \<not> isNaN n \<and> greater_than_zero n then Some (String_number e n) else ?kept) =
      ?written n" for n
    by (cases n) simp_all
  have k: "header_truthy ?kept \<longleftrightarrow> ?kept \<noteq> None \<and> ?kept \<noteq> Some []"
    by (cases ?kept) simp_all
  have t: "number_truthy n \<longleftrightarrow> \<not> (n = NaN \<or> n = Finite 0)" for n
    by (cases n) simp_all
  have c: "finalUploadHeaders e p dr (preparedUploadHeaders e p uh) (ascii ''Content-Length'') =
      (let kept = ?kept; written = ?written;
           from_response =
             (if kept \<noteq> None \<and> kept \<noteq> Some [] then kept
              else case resp_headers dr of
                     None \<Rightarrow> kept
                   | Some rh \<Rightarrow>
                       (case rh (ascii ''content-length'') of
                          None \<Rightarrow> kept
                        | Some s \<Rightarrow> written (parseInt s)))
       in case contentLength p of
            CLString s \<Rightarrow> if s = [] then from_response else written (parseInt s)
          | CLNumber n \<Rightarrow> if n = NaN \<or> n = Finite 0 then from_response else written n)"
  proof (cases "contentLength p")
    case (CLString s)
    then show ?thesis
      unfolding finalUploadHeaders_content_length w k Let_def
      by (simp add: to_length_def split: option.splits)
  next
    case (CLNumber n)
    then show ?thesis
      unfolding finalUploadHeaders_content_length w k Let_def
      by (simp add: to_length_def t split: option.splits)
  qed
  have d: "0 < i \<and> i < 2 ^ 53 \<longrightarrow> String_number e (Finite (of_int i)) = decimal i" for i
    using String_int_safe [of i e] by (simp add: String_int_def)
  show ?thesis
    using c d by (simp add: execute_stream_issued [OF assms])
qed

theorem content_length_choice_witness:
  "contentLength sample_params = CLString []
   \<and> resp_headers (stream_response (Some 200)) = Some [ascii ''content-length'' \<mapsto> ascii ''100'']
   \<and> (\<exists>u. fst (execute ok_env sample_params) =
              [downloadOptions sample_params (finalDownloadHeaders Map.empty), u]
        \<and> headers u (ascii ''Content-Length'') = Some (ascii ''100''))
   \<and> contentLength fractional_length_params = CLNumber (Finite (3 / 2))
   \<and> (\<exists>u. fst (execute ok_env fractional_length_params) =
              [downloadOptions fractional_length_params (finalDownloadHeaders Map.empty), u]
        \<and> headers u (ascii ''Content-Length'') = Some (ascii ''1.5''))"
proof -
  have f: "\<not> is_safe_integer (3 / 2)"
    by code_simp
  have d: "String_number ok_env (Finite (3 / 2)) = ascii ''1.5''"
    by (simp add: String_number_def Number_toString_def f sample_Number_digits_def)
  have 1: "\<exists>u. fst (execute ok_env sample_params) =
              [downloadOptions sample_params (finalDownloadHeaders Map.empty), u]
        \<and> headers u (ascii ''Content-Length'') = Some (ascii ''100'')"
    using content_length_choice
      [of sample_params ok_env Map.empty Map.empty "stream_response (Some 200)" 0]
    by (simp add: parseInt_examples, blast)
  have 2: "\<exists>u. fst (execute ok_env fractional_length_params) =
              [downloadOptions fractional_length_params (finalDownloadHeaders Map.empty), u]
        \<and> headers u (ascii ''Content-Length'') = Some (ascii ''1.5'')"
    using content_length_choice
      [of fractional_length_params ok_env Map.empty Map.empty "stream_response (Some 200)" 0]
    by (simp add: d, blast)
  show ?thesis
    using 1 2 by simp
qed

text \<open>
  C2, counterexample, in two runs. In the first the explicit contentLength is the
  non-numeric string abc and the download response advertises content-length: 100; by
  the stated precedence the upload would carry Content-Length: 100, and the upload
  request is issued without a Content-Length header. In the second no contentLength is
  given and the response holds its length under the name Content-Length, which is
  content-length when letter case is ignored; again the upload request is issued
  without a Content-Length header.
\<close>

theorem nonnumeric_length_does_not_fall_through:
  "parseInt (ascii ''abc'') = NaN
   \<and> map_option (String_number ok_env)
       (precedence_content_length (CLString (ascii ''abc'')) (Some (ascii ''100''))) =
       Some (ascii ''100'')
   \<and> length (fst (execute ok_env nonnumeric_length_params)) = 2
   \<and> req_method (fst (execute ok_env nonnumeric_length_params) ! 1) = ascii ''POST''
   \<and> headers (fst (execute ok_env nonnumeric_length_params) ! 1) (ascii ''Content-Length'') = None
   \<and> same_header_name (ascii ''Content-Length'') (ascii ''content-length'')
   \<and> resp_headers capital_header_response = Some [ascii ''Content-Length'' \<mapsto> ascii ''100'']
   \<and> map_option (String_number capital_header_env)
       (precedence_content_length (CLString []) (Some (ascii ''100''))) =
       Some (ascii ''100'')
   \<and> length (fst (execute capital_header_env sample_params)) = 2
   \<and> req_method (fst (execute capital_header_env sample_params) ! 1) = ascii ''POST''
   \<and> headers (fst (execute capital_header_env sample_params) ! 1) (ascii ''Content-Length'') = None"
proof -
  have x: "fst (execute ok_env nonnumeric_length_params) =
     [downloadOptions nonnumeric_length_params (finalDownloadHeaders Map.empty),
      uploadOptions nonnumeric_length_params
        (finalUploadHeaders ok_env nonnumeric_length_params (stream_response (Some 200))
           (preparedUploadHeaders ok_env nonnumeric_length_params Map.empty))
        (JStream 0)]"
    by (rule execute_stream_issued) simp_all
  have y: "fst (execute capital_header_env sample_params) =
     [downloadOptions sample_params (finalDownloadHeaders Map.empty),
      uploadOptions sample_params
        (finalUploadHeaders capital_header_env sample_params capital_header_response
           (preparedUploadHeaders capital_header_env sample_params Map.empty))
        (JStream 0)]"
    by (rule execute_stream_issued) simp_all
  have w: "precedence_content_length (CLString (ascii ''abc'')) (Some (ascii ''100'')) =
      Some (Finite 100)"
    "precedence_content_length (CLString []) (Some (ascii ''100'')) = Some (Finite 100)"
    by (simp_all add: precedence_content_length_def candidate_length_def to_length_def
        parseInt_examples)
  have s: "same_header_name (ascii ''Content-Length'') (ascii ''content-length'')"
    by (simp add: same_header_name_def lower_unit_def ascii_def)
  have m: "http_method nonnumeric_length_params = ascii ''POST''"
    by (simp add: nonnumeric_length_params_def)
  show ?thesis
    by (simp add: x y w s m parseInt_examples finalUploadHeaders_content_length to_length_def)
qed

text \<open>
  C3, at the failing input: the upload headers hold AUTHORIZATION: Basic abc and the
  upload URL carries bearer=ABC123. The upload request is issued with both the
  caller's AUTHORIZATION header and an added Authorization: Bearer ABC123.
\<close>

theorem bearer_added_beside_uppercase_authorization:
  "same_header_name (ascii ''AUTHORIZATION'') (ascii ''Authorization'')
   \<and> length (fst (execute ok_env uppercase_auth_params)) = 2
   \<and> req_method (fst (execute ok_env uppercase_auth_params) ! 1) = ascii ''POST''
   \<and> headers (fst (execute ok_env uppercase_auth_params) ! 1) (ascii ''AUTHORIZATION'') = Some (ascii ''Basic abc'')
   \<and> headers (fst (execute ok_env uppercase_auth_params) ! 1) (ascii ''Authorization'') = Some (ascii ''Bearer ABC123'')"
proof -
  have x: "fst (execute ok_env uppercase_auth_params) =
     [downloadOptions uppercase_auth_params (finalDownloadHeaders Map.empty),
      uploadOptions uppercase_auth_params
        (finalUploadHeaders ok_env uppercase_auth_params (stream_response (Some 200))
           (preparedUploadHeaders ok_env uppercase_auth_params
              (header_entries sample_JSON_stringify [(ascii ''AUTHORIZATION'', JString (ascii ''Basic abc''))])))
        (JStream 0)]"
    by (rule execute_stream_issued) simp_all
  show ?thesis
    by (simp add: x same_header_name_authorization finalUploadHeaders_other
        preparedUploadHeaders_other addBearer_def mergedUploadHeaders_lookup
        header_entries_def ascii_append [symmetric])
qed

text \<open>
  C4, as amended. With throwOnError true every terminal failure inside the try block
  (a transport error of either request, a download or upload status outside
  [200, 300), a Buffer body, a body that is not a stream) raises an error and returns
  no record. For a body that is not a stream the diagnostic is the not-streamable
  message filled with the body's type, constructor name and preview, provided the
  conversions of these to strings do not themselves throw. The raised message is the failure's diagnostic string as the outer catch
  leaves it: unchanged when it contains Download URL or Upload URL, otherwise
  wrapped as File transfer failed: diagnostic. Download URL: d, Upload URL: u. The
  diagnostic string is always part of the raised message.
\<close>

theorem thrown_failures_pass_through_catch:
  assumes "js_trim (downloadUrl p) \<noteq> []" and "js_trim (uploadUrl p) \<noteq> []"
    and "parseHeaders e (downloadHeadersParam p) = Inr dh"
    and "parseHeaders e (uploadHeadersParam p) = Inr uh"
    and "throwOnError p"
  shows
    "(\<forall>err. request e (downloadOptions p (finalDownloadHeaders dh)) = Inl err \<longrightarrow>
        snd (execute e p) =
          Raised (ErrorObject
            (enhancedMessage (thrown_message err) (downloadUrl p) (uploadUrl p))))
     \<and> (\<forall>dr c. request e (downloadOptions p (finalDownloadHeaders dh)) = Inr dr
          \<and> statusCode dr = Some c \<and> (c < 200 \<or> 300 \<le> c) \<longrightarrow>
        snd (execute e p) =
          Raised (ErrorObject
            (enhancedMessage (downloadFailedMessage e c (downloadUrl p))
               (downloadUrl p) (uploadUrl p))))
     \<and> (\<forall>dr bs. request e (downloadOptions p (finalDownloadHeaders dh)) = Inr dr
          \<and> \<not> status_failed (statusCode dr) \<and> resp_body dr = JBuffer bs \<longrightarrow>
        snd (execute e p) =
          Raised (ErrorObject
            (enhancedMessage (bufferedMessage e (downloadUrl p) (length bs))
               (downloadUrl p) (uploadUrl p))))
     \<and> (\<forall>dr. request e (downloadOptions p (finalDownloadHeaders dh)) = Inr dr
          \<and> \<not> status_failed (statusCode dr)
          \<and> \<not> isBuffer (resp_body dr) \<and> \<not> has_pipe (resp_body dr) \<longrightarrow>
        snd (execute e p) =
          Raised (ErrorObject
            (enhancedMessage
               (thrown_message (notStreamableThrown e (downloadUrl p) (resp_body dr)))
               (downloadUrl p) (uploadUrl p))))
     \<and> (\<forall>v preview constructorText.
          bodyPreview e v = Inr preview \<and> js_ToString e (bodyConstructor v) = Inr constructorText
          \<longrightarrow>
        thrown_message (notStreamableThrown e (downloadUrl p) v) =
          notStreamableMessage (downloadUrl p) (js_typeof v) constructorText preview)
     \<and> (\<forall>dr h err. request e (downloadOptions p (finalDownloadHeaders dh)) = Inr dr
          \<and> \<not> status_failed (statusCode dr) \<and> resp_body dr = JStream h
          \<and> request e (uploadOptions p (finalUploadHeaders e p dr (preparedUploadHeaders e p uh))
                (JStream h)) = Inl err \<longrightarrow>
        snd (execute e p) =
          Raised (ErrorObject
            (enhancedMessage (thrown_message err) (downloadUrl p) (uploadUrl p))))
     \<and> (\<forall>dr h ur c. request e (downloadOptions p (finalDownloadHeaders dh)) = Inr dr
          \<and> \<not> status_failed (statusCode dr) \<and> resp_body dr = JStream h
          \<and> request e (uploadOptions p (finalUploadHeaders e p dr (preparedUploadHeaders e p uh))
                (JStream h)) = Inr ur
          \<and> statusCode ur = Some c \<and> (c < 200 \<or> 300 \<le> c) \<longrightarrow>
        snd (execute e p) =
          Raised (ErrorObject
            (enhancedMessage (uploadFailedMessage e c (uploadUrl p) (http_method p))
               (downloadUrl p) (uploadUrl p))))
     \<and> (\<forall>m. js_includes (enhancedMessage m (downloadUrl p) (uploadUrl p)) m
          \<and> (enhancedMessage m (downloadUrl p) (uploadUrl p) = m \<longleftrightarrow>
               js_includes m (ascii ''Download URL'') \<or> js_includes m (ascii ''Upload URL''))
          \<and> (enhancedMessage m (downloadUrl p) (uploadUrl p) \<noteq> m \<longrightarrow>
               enhancedMessage m (downloadUrl p) (uploadUrl p) =
                 ascii ''File transfer failed: '' @ m @ ascii ''. Download URL: '' @ downloadUrl p
                 @ ascii '', Upload URL: '' @ uploadUrl p))"
proof (intro conjI allI impI)
  fix err
  assume "request e (downloadOptions p (finalDownloadHeaders dh)) = Inl err"
  from execute_download_throws [OF assms(1-4) this] assms(5)
  show "snd (execute e p) =
      Raised (ErrorObject (enhancedMessage (thrown_message err) (downloadUrl p) (uploadUrl p)))"
    by simp
next
  fix dr c
  assume "request e (downloadOptions p (finalDownloadHeaders dh)) = Inr dr
    \<and> statusCode dr = Some c \<and> (c < 200 \<or> 300 \<le> c)"
  then have "execute e p =
     ([downloadOptions p (finalDownloadHeaders dh)],
      if throwOnError p
      then Raised (ErrorObject
             (enhancedMessage (downloadFailedMessage e c (downloadUrl p))
                (downloadUrl p) (uploadUrl p)))
      else Returned (downloadFailureRecord e p c))"
    using execute_download_status_failed [OF assms(1-4)] by blast
  with assms(5)
  show "snd (execute e p) =
      Raised (ErrorObject
        (enhancedMessage (downloadFailedMessage e c (downloadUrl p)) (downloadUrl p) (uploadUrl p)))"
    by simp
next
  fix dr bs
  assume "request e (downloadOptions p (finalDownloadHeaders dh)) = Inr dr
    \<and> \<not> status_failed (statusCode dr) \<and> resp_body dr = JBuffer bs"
  then have "execute e p =
     ([downloadOptions p (finalDownloadHeaders dh)],
      if throwOnError p
      then Raised (ErrorObject
             (enhancedMessage (bufferedMessage e (downloadUrl p) (length bs))
                (downloadUrl p) (uploadUrl p)))
      else Returned (caughtRecord p
             (enhancedMessage (bufferedMessage e (downloadUrl p) (length bs))
                (downloadUrl p) (uploadUrl p))))"
    using execute_buffer [OF assms(1-4)] by blast
  with assms(5)
  show "snd (execute e p) =
      Raised (ErrorObject
        (enhancedMessage (bufferedMessage e (downloadUrl p) (length bs))
           (downloadUrl p) (uploadUrl p)))"
    by simp
next
  fix dr
  assume "request e (downloadOptions p (finalDownloadHeaders dh)) = Inr dr
    \<and> \<not> status_failed (statusCode dr)
    \<and> \<not> isBuffer (resp_body dr) \<and> \<not> has_pipe (resp_body dr)"
  then have "execute e p =
     ([downloadOptions p (finalDownloadHeaders dh)],
      if throwOnError p
      then Raised (ErrorObject
             (enhancedMessage
                (thrown_message (notStreamableThrown e (downloadUrl p) (resp_body dr)))
                (downloadUrl p) (uploadUrl p)))
      else Returned (caughtRecord p
             (enhancedMessage
                (thrown_message (notStreamableThrown e (downloadUrl p) (resp_body dr)))
                (downloadUrl p) (uploadUrl p))))"
    using execute_not_streamable [OF assms(1-4)] by blast
  with assms(5)
  show "snd (execute e p) =
      Raised (ErrorObject
        (enhancedMessage
           (thrown_message (notStreamableThrown e (downloadUrl p) (resp_body dr)))
           (downloadUrl p) (uploadUrl p)))"
    by simp
next
  fix v preview constructorText
  assume "bodyPreview e v = Inr preview \<and> js_ToString e (bodyConstructor v) = Inr constructorText"
  then show "thrown_message (notStreamableThrown e (downloadUrl p) v) =
      notStreamableMessage (downloadUrl p) (js_typeof v) constructorText preview"
    by (simp add: notStreamableThrown_message)
next
  fix dr h err
  assume "request e (downloadOptions p (finalDownloadHeaders dh)) = Inr dr
    \<and> \<not> status_failed (statusCode dr) \<and> resp_body dr = JStream h
    \<and> request e (uploadOptions p (finalUploadHeaders e p dr (preparedUploadHeaders e p uh))
          (JStream h)) = Inl err"
  then show "snd (execute e p) =
      Raised (ErrorObject (enhancedMessage (thrown_message err) (downloadUrl p) (uploadUrl p)))"
    using execute_upload_throws [OF assms(1-4), of dr h err] assms(5) by simp
next
  fix dr h ur c
  assume "request e (downloadOptions p (finalDownloadHeaders dh)) = Inr dr
    \<and> \<not> status_failed (statusCode dr) \<and> resp_body dr = JStream h
    \<and> request e (uploadOptions p (finalUploadHeaders e p dr (preparedUploadHeaders e p uh))
          (JStream h)) = Inr ur
    \<and> statusCode ur = Some c \<and> (c < 200 \<or> 300 \<le> c)"
  then show "snd (execute e p) =
      Raised (ErrorObject
        (enhancedMessage (uploadFailedMessage e c (uploadUrl p) (http_method p))
           (downloadUrl p) (uploadUrl p)))"
    using execute_upload_status_failed [OF assms(1-4), of dr h ur c] assms(5) by simp
next
  fix m
  show "js_includes (enhancedMessage m (downloadUrl p) (uploadUrl p)) m"
    by (rule enhancedMessage_holds_message)
next
  fix m
  show "(enhancedMessage m (downloadUrl p) (uploadUrl p) = m) =
      (js_includes m (ascii ''Download URL'') \<or> js_includes m (ascii ''Upload URL''))"
    by (rule enhancedMessage_unchanged_iff)
next
  fix m
  assume "enhancedMessage m (downloadUrl p) (uploadUrl p) \<noteq> m"
  then show "enhancedMessage m (downloadUrl p) (uploadUrl p) =
      ascii ''File transfer failed: '' @ m @ ascii ''. Download URL: '' @ downloadUrl p
      @ ascii '', Upload URL: '' @ uploadUrl p"
    by (simp add: enhancedMessage_def split: if_splits)
qed

theorem thrown_failures_pass_through_catch_witness:
  "throwOnError sample_params
   \<and> request buffer_200_env (downloadOptions sample_params (finalDownloadHeaders Map.empty)) =
       Inr (buffer_response (Some 200))
   \<and> snd (execute buffer_200_env sample_params) =
       Raised (ErrorObject
         (enhancedMessage (bufferedMessage buffer_200_env (ascii ''https://files.example/a.bin'') 7)
            (ascii ''https://files.example/a.bin'') (ascii ''https://up.example/put?bearer=ABC123'')))"
proof -
  have 1: "js_trim (downloadUrl sample_params) \<noteq> []" by simp
  have 2: "js_trim (uploadUrl sample_params) \<noteq> []" by simp
  have 3: "parseHeaders buffer_200_env (downloadHeadersParam sample_params) = Inr Map.empty"
    by simp
  have 4: "parseHeaders buffer_200_env (uploadHeadersParam sample_params) = Inr Map.empty"
    by simp
  have 5: "throwOnError sample_params" by simp
  note t = thrown_failures_pass_through_catch [OF 1 2 3 4 5]
  from t have "\<forall>dr bs.
      request buffer_200_env (downloadOptions sample_params (finalDownloadHeaders Map.empty)) = Inr dr
      \<and> \<not> status_failed (statusCode dr) \<and> resp_body dr = JBuffer bs \<longrightarrow>
      snd (execute buffer_200_env sample_params) =
        Raised (ErrorObject
          (enhancedMessage (bufferedMessage buffer_200_env (downloadUrl sample_params) (length bs))
             (downloadUrl sample_params) (uploadUrl sample_params)))"
    by (elim conjE)
  from this [rule_format, of "buffer_response (Some 200)" "[1, 2, 3, 4, 5, 6, 7]"]
  show ?thesis by (simp add: seven_bytes)
qed

text \<open>
  C4, counterexample. The download answers 200 with a Buffer of 7 bytes and
  throwOnError is true. The raised message is not the stream validator's message: the
  outer catch has put File transfer failed: before it and both URLs after it.
\<close>

theorem buffered_message_wrapped_by_catch:
  "throwOnError sample_params
   \<and> snd (execute buffer_200_env sample_params) =
       Raised (ErrorObject
         (enhancedMessage (bufferedMessage buffer_200_env (ascii ''https://files.example/a.bin'') 7)
            (ascii ''https://files.example/a.bin'') (ascii ''https://up.example/put?bearer=ABC123'')))
   \<and> enhancedMessage (bufferedMessage buffer_200_env (ascii ''https://files.example/a.bin'') 7)
        (ascii ''https://files.example/a.bin'') (ascii ''https://up.example/put?bearer=ABC123'')
       \<noteq> bufferedMessage buffer_200_env (ascii ''https://files.example/a.bin'') 7
   \<and> take 22 (enhancedMessage (bufferedMessage buffer_200_env (ascii ''https://files.example/a.bin'') 7)
        (ascii ''https://files.example/a.bin'') (ascii ''https://up.example/put?bearer=ABC123''))
       = ascii ''File transfer failed: ''"
proof -
  have x: "execute buffer_200_env sample_params =
     ([downloadOptions sample_params (finalDownloadHeaders Map.empty)],
      if throwOnError sample_params
      then Raised (ErrorObject
             (enhancedMessage (bufferedMessage buffer_200_env (downloadUrl sample_params)
                  (length [1, 2, 3, 4, 5, 6, 7 :: nat]))
                (downloadUrl sample_params) (uploadUrl sample_params)))
      else Returned (caughtRecord sample_params
             (enhancedMessage (bufferedMessage buffer_200_env (downloadUrl sample_params)
                  (length [1, 2, 3, 4, 5, 6, 7 :: nat]))
                (downloadUrl sample_params) (uploadUrl sample_params))))"
    by (rule execute_buffer [where dr = "buffer_response (Some 200)"]) simp_all
  have n: "\<not> js_includes (bufferedMessage buffer_200_env (ascii ''https://files.example/a.bin'') 7) (ascii ''Download URL'')"
    "\<not> js_includes (bufferedMessage buffer_200_env (ascii ''https://files.example/a.bin'') 7) (ascii ''Upload URL'')"
    by code_simp+
  have u: "enhancedMessage (bufferedMessage buffer_200_env (ascii ''https://files.example/a.bin'') 7)
        (ascii ''https://files.example/a.bin'') (ascii ''https://up.example/put?bearer=ABC123'')
       \<noteq> bufferedMessage buffer_200_env (ascii ''https://files.example/a.bin'') 7"
    using n by (simp add: enhancedMessage_unchanged_iff)
  have k: "take 22 (enhancedMessage (bufferedMessage buffer_200_env (ascii ''https://files.example/a.bin'') 7)
        (ascii ''https://files.example/a.bin'') (ascii ''https://up.example/put?bearer=ABC123''))
       = ascii ''File transfer failed: ''"
    using n by (simp add: enhancedMessage_def)
  show ?thesis
    using u k by (simp add: x seven_bytes)
qed

text \<open>
  C5, as amended. The download request carries the default Accept header merged with
  the caller's download headers, and the upload request carries, on every name other
  than Authorization and Content-Length, the default Content-Type header merged with
  the caller's upload headers. The caller's header wins where its name is exactly the
  default's; names are compared as they are spelled.
\<close>

theorem headers_merged_by_exact_name:
  assumes "js_trim (downloadUrl p) \<noteq> []" and "js_trim (uploadUrl p) \<noteq> []"
    and "parseHeaders e (downloadHeadersParam p) = Inr dh"
    and "parseHeaders e (uploadHeadersParam p) = Inr uh"
  shows "fst (execute e p) \<noteq> []
     \<and> headers (hd (fst (execute e p))) = [ascii ''Accept'' \<mapsto> ascii ''*/*''] ++ dh
     \<and> (\<forall>k v. dh k = Some v \<longrightarrow> headers (hd (fst (execute e p))) k = Some v)
     \<and> (\<forall>k. dh k = None \<longrightarrow>
           headers (hd (fst (execute e p))) k = (if k = ascii ''Accept'' then Some (ascii ''*/*'') else None))
     \<and> (length (fst (execute e p)) = 2 \<longrightarrow>
          (\<forall>k. k \<noteq> (ascii ''Authorization'') \<and> k \<noteq> (ascii ''Content-Length'') \<longrightarrow>
             headers (fst (execute e p) ! 1) k =
               ([ascii ''Content-Type'' \<mapsto> ascii ''application/octet-stream''] ++ uh) k))"
proof -
  let ?d = "downloadOptions p (finalDownloadHeaders dh)"
  let ?t = "tryBlock e p (finalDownloadHeaders dh) (preparedUploadHeaders e p uh)"
  have i: "fst (execute e p) = fst ?t"
    by (rule execute_issued [OF assms])
  have up: "k \<noteq> (ascii ''Authorization'') \<Longrightarrow> k \<noteq> (ascii ''Content-Length'') \<Longrightarrow>
      finalUploadHeaders e p dr (preparedUploadHeaders e p uh) k =
        ([ascii ''Content-Type'' \<mapsto> ascii ''application/octet-stream''] ++ uh) k" for k dr
    by (simp add: finalUploadHeaders_other preparedUploadHeaders_other addBearer_other
        mergedUploadHeaders_def)
  from tryBlock_issued [of e p "finalDownloadHeaders dh" "preparedUploadHeaders e p uh"]
  show ?thesis
  proof
    assume "fst ?t = [?d]"
    then show ?thesis
      by (simp add: i finalDownloadHeaders_lookup) (simp add: finalDownloadHeaders_def)
  next
    assume "\<exists>dr h. request e ?d = Inr dr \<and> resp_body dr = JStream h \<and>
      fst ?t = [?d, uploadOptions p (finalUploadHeaders e p dr (preparedUploadHeaders e p uh))
                      (JStream h)]"
    then obtain dr h where
      "fst ?t = [?d, uploadOptions p (finalUploadHeaders e p dr (preparedUploadHeaders e p uh))
                      (JStream h)]"
      by blast
    then show ?thesis
      by (simp add: i finalDownloadHeaders_lookup up) (simp add: finalDownloadHeaders_def)
  qed
qed

theorem headers_merged_by_exact_name_witness:
  "headers (hd (fst (execute ok_env lowercase_accept_params))) =
     [ascii ''Accept'' \<mapsto> ascii ''*/*''] ++ header_entries sample_JSON_stringify [(ascii ''accept'', JString (ascii ''text/html''))]
   \<and> length (fst (execute ok_env lowercase_accept_params)) = 2
   \<and> headers (fst (execute ok_env lowercase_accept_params) ! 1) (ascii ''Content-Type'') =
       Some (ascii ''application/octet-stream'')"
proof -
  have x: "fst (execute ok_env lowercase_accept_params) =
     [downloadOptions lowercase_accept_params
        (finalDownloadHeaders (header_entries sample_JSON_stringify [(ascii ''accept'', JString (ascii ''text/html''))])),
      uploadOptions lowercase_accept_params
        (finalUploadHeaders ok_env lowercase_accept_params (stream_response (Some 200))
           (preparedUploadHeaders ok_env lowercase_accept_params (header_entries sample_JSON_stringify [])))
        (JStream 0)]"
    by (rule execute_stream_issued) simp_all
  have l: "length (fst (execute ok_env lowercase_accept_params)) = 2"
    by (simp add: x)
  show ?thesis
    using l headers_merged_by_exact_name
      [of lowercase_accept_params ok_env
          "header_entries sample_JSON_stringify [(ascii ''accept'', JString (ascii ''text/html''))]" Map.empty]
    by simp
qed

text \<open>
  C5, counterexample. The caller's download headers hold accept: text/html, a name
  that equals the default's Accept when letter case is ignored; the download request
  is issued with both the caller's header and the default Accept: */*, so the caller's
  header did not replace the default.
\<close>

theorem default_accept_kept_beside_lowercase_accept:
  "same_header_name (ascii ''accept'') (ascii ''Accept'')
   \<and> headers (hd (fst (execute ok_env lowercase_accept_params))) (ascii ''accept'') = Some (ascii ''text/html'')
   \<and> headers (hd (fst (execute ok_env lowercase_accept_params))) (ascii ''Accept'') = Some (ascii ''*/*'')"
proof -
  have x: "fst (execute ok_env lowercase_accept_params) =
     [downloadOptions lowercase_accept_params
        (finalDownloadHeaders (header_entries sample_JSON_stringify [(ascii ''accept'', JString (ascii ''text/html''))])),
      uploadOptions lowercase_accept_params
        (finalUploadHeaders ok_env lowercase_accept_params (stream_response (Some 200))
           (preparedUploadHeaders ok_env lowercase_accept_params (header_entries sample_JSON_stringify [])))
        (JStream 0)]"
    by (rule execute_stream_issued) simp_all
  have s: "same_header_name (ascii ''accept'') (ascii ''Accept'')"
    by code_simp
  show ?thesis
    by (simp add: x s finalDownloadHeaders_lookup header_entries_def)
qed

text \<open>
  C6. When the upload URL carries a non-empty bearer token and the upload headers
  have no Authorization header in any letter case, the upload request carries
  Authorization: Bearer token, and it is issued against the upload URL as given.
\<close>

theorem bearer_mirrored_url_kept:
  assumes "js_trim (downloadUrl p) \<noteq> []" and "js_trim (uploadUrl p) \<noteq> []"
    and "parseHeaders e (downloadHeadersParam p) = Inr dh"
    and "parseHeaders e (uploadHeadersParam p) = Inr uh"
    and "extractBearerToken e (uploadUrl p) = Some t" and "t \<noteq> []"
    and "\<forall>k. same_header_name k (ascii ''Authorization'') \<longrightarrow> uh k = None"
    and "request e (downloadOptions p (finalDownloadHeaders dh)) = Inr dr"
    and "\<not> status_failed (statusCode dr)"
    and "resp_body dr = JStream h"
  shows "\<exists>u. fst (execute e p) = [downloadOptions p (finalDownloadHeaders dh), u]
     \<and> url u = uploadUrl p
     \<and> headers u (ascii ''Authorization'') = Some (ascii ''Bearer '' @ t)
     \<and> req_method u = http_method p
     \<and> body u = JStream h"
proof -
  from assms(7) have a: "uh (ascii ''Authorization'') = None" "uh (ascii ''authorization'') = None"
    using same_header_name_authorization by blast+
  have "preparedUploadHeaders e p uh (ascii ''Authorization'') = Some (ascii ''Bearer '' @ t)"
    using a assms(5,6)
    by (simp add: preparedUploadHeaders_other addBearer_def mergedUploadHeaders_lookup)
  then have "finalUploadHeaders e p dr (preparedUploadHeaders e p uh) (ascii ''Authorization'') =
      Some (ascii ''Bearer '' @ t)"
    by (simp add: finalUploadHeaders_other)
  then show ?thesis
    by (simp add: execute_stream_issued [OF assms(1-4) assms(8-10)])
qed

theorem bearer_mirrored_url_kept_witness:
  "extractBearerToken ok_env (uploadUrl sample_params) = Some (ascii ''ABC123'')
   \<and> parseHeaders ok_env (uploadHeadersParam sample_params) = Inr Map.empty
   \<and> (\<exists>u. fst (execute ok_env sample_params) =
              [downloadOptions sample_params (finalDownloadHeaders Map.empty), u]
        \<and> url u = ascii ''https://up.example/put?bearer=ABC123''
        \<and> headers u (ascii ''Authorization'') = Some (ascii ''Bearer ABC123''))"
  using bearer_mirrored_url_kept
    [of sample_params ok_env Map.empty Map.empty "ascii ''ABC123''" "stream_response (Some 200)" 0]
  by (simp add: ascii_append [symmetric], blast)

text \<open>
  C7. On a successful transfer whose upload response body is defined, a string body
  that JSON.parse accepts gives its decoded value as uploadResponse, a string body
  that JSON.parse rejects gives the raw string, any other body is passed on as it
  is; in each case execute returns the success record and raises nothing.
\<close>

theorem upload_body_decoding:
  assumes "js_trim (downloadUrl p) \<noteq> []" and "js_trim (uploadUrl p) \<noteq> []"
    and "parseHeaders e (downloadHeadersParam p) = Inr dh"
    and "parseHeaders e (uploadHeadersParam p) = Inr uh"
    and "request e (downloadOptions p (finalDownloadHeaders dh)) = Inr dr"
    and "\<not> status_failed (statusCode dr)"
    and "resp_body dr = JStream h"
    and "request e (uploadOptions p (finalUploadHeaders e p dr (preparedUploadHeaders e p uh))
           (JStream h)) = Inr ur"
    and "\<not> status_failed (statusCode ur)"
    and "resp_body ur \<noteq> JUndefined"
  shows "\<exists>item.
     snd (execute e p) = Returned item
     \<and> success (json item) = Some True
     \<and> (\<forall>s v. resp_body ur = JString s \<and> JSON_parse e s = Some v
            \<longrightarrow> uploadResponse (json item) = Some v)
     \<and> (\<forall>s. resp_body ur = JString s \<and> JSON_parse e s = None
            \<longrightarrow> uploadResponse (json item) = Some (JString s))
     \<and> ((\<forall>s. resp_body ur \<noteq> JString s)
            \<longrightarrow> uploadResponse (json item) = Some (resp_body ur))"
  using assms(10)
  by (cases "resp_body ur")
     (auto simp: execute_success [OF assms(1-9)] decodeUploadBody_def)

theorem upload_body_decoding_witness:
  "sample_JSON_parse (ascii ''[1,2]'') = Some (JArray [JNumber (Finite 1), JNumber (Finite 2)])
   \<and> sample_JSON_parse (ascii ''done'') = None
   \<and> (\<exists>item.
        snd (execute (sample_env (Inr (stream_response (Some 200)))
                        (Inr (text_response (Some 201) (ascii ''[1,2]'')))) sample_params) = Returned item
        \<and> uploadResponse (json item) = Some (JArray [JNumber (Finite 1), JNumber (Finite 2)]))
   \<and> (\<exists>item.
        snd (execute (sample_env (Inr (stream_response (Some 200)))
                        (Inr (text_response (Some 201) (ascii ''done'')))) sample_params) = Returned item
        \<and> uploadResponse (json item) = Some (JString (ascii ''done'')))"
proof -
  have a: "sample_JSON_parse (ascii ''[1,2]'') = Some (JArray [JNumber (Finite 1), JNumber (Finite 2)])"
    by (simp add: sample_JSON_parse_def)
  have b: "sample_JSON_parse (ascii ''done'') = None"
    by (simp add: sample_JSON_parse_def)
  show ?thesis
    using a b
      upload_body_decoding
        [of sample_params
            "sample_env (Inr (stream_response (Some 200))) (Inr (text_response (Some 201) (ascii ''[1,2]'')))"
            Map.empty Map.empty "stream_response (Some 200)" 0 "text_response (Some 201) (ascii ''[1,2]'')"]
      upload_body_decoding
        [of sample_params
            "sample_env (Inr (stream_response (Some 200))) (Inr (text_response (Some 201) (ascii ''done'')))"
            Map.empty Map.empty "stream_response (Some 200)" 0 "text_response (Some 201) (ascii ''done'')"]
    by auto
qed

text \<open>
  C8. When the download response has status 404 and throwOnError is false, execute
  returns a result record whose error message contains 404 and the download URL and
  whose downloadStatus is 404; the only request issued is the download request.
\<close>

theorem download_404_returns_record:
  assumes "js_trim (downloadUrl p) \<noteq> []" and "js_trim (uploadUrl p) \<noteq> []"
    and "parseHeaders e (downloadHeadersParam p) = Inr dh"
    and "parseHeaders e (uploadHeadersParam p) = Inr uh"
    and "request e (downloadOptions p (finalDownloadHeaders dh)) = Inr dr"
    and "statusCode dr = Some 404"
    and "\<not> throwOnError p"
  shows "\<exists>item m.
     execute e p = ([downloadOptions p (finalDownloadHeaders dh)], Returned item)
     \<and> error (json item) = Some m
     \<and> js_includes m (ascii ''404'') \<and> js_includes m (downloadUrl p)
     \<and> downloadStatus (json item) = Some 404
     \<and> req_method (downloadOptions p (finalDownloadHeaders dh)) = ascii ''GET''
     \<and> url (downloadOptions p (finalDownloadHeaders dh)) = downloadUrl p"
proof -
  have t: "tryBlock e p (finalDownloadHeaders dh) (preparedUploadHeaders e p uh) =
      ([downloadOptions p (finalDownloadHeaders dh)], Inr (downloadFailureRecord e p 404))"
    using tryBlock_status_failed [OF assms(5) assms(6)] assms(7) by simp
  have x: "execute e p =
      ([downloadOptions p (finalDownloadHeaders dh)], Returned (downloadFailureRecord e p 404))"
    by (simp add: execute_entered [OF assms(1-4)] t)
  have "js_includes (downloadFailedMessage e 404 (downloadUrl p)) (ascii ''404'')"
    using downloadFailedMessage_status [of e 404 "downloadUrl p"] by simp
  then show ?thesis
    using x downloadFailedMessage_url [of e 404 "downloadUrl p"]
    by (simp add: downloadFailureRecord_def downloadOptions_def)
qed

theorem download_404_returns_record_witness:
  "\<not> throwOnError (sample_params\<lparr>throwOnError := False\<rparr>)
   \<and> statusCode (stream_response (Some 404)) = Some 404
   \<and> (\<exists>item m.
        execute (sample_env (Inr (stream_response (Some 404))) (Inl (OtherThrown (ascii ''unused''))))
          (sample_params\<lparr>throwOnError := False\<rparr>) =
          ([downloadOptions (sample_params\<lparr>throwOnError := False\<rparr>)
              (finalDownloadHeaders Map.empty)], Returned item)
        \<and> error (json item) = Some m
        \<and> js_includes m (ascii ''404'')
        \<and> js_includes m (downloadUrl (sample_params\<lparr>throwOnError := False\<rparr>))
        \<and> downloadStatus (json item) = Some 404)"
  using download_404_returns_record
    [of "sample_params\<lparr>throwOnError := False\<rparr>"
        "sample_env (Inr (stream_response (Some 404))) (Inl (OtherThrown (ascii ''unused'')))"
        Map.empty Map.empty "stream_response (Some 404)"]
  by simp

text \<open>
  C9. When the download URL or the upload URL is empty or only white space (any of
  the code units that trim removes, the no-break space among them), execute
  raises the configuration error whatever the value of throwOnError, and no request
  has been issued; no result record is returned.
\<close>

theorem empty_url_always_raises:
  assumes "js_trim (downloadUrl p) = [] \<or> js_trim (uploadUrl p) = []"
  shows "execute e (p\<lparr>throwOnError := b\<rparr>) =
     ([], Raised (ErrorObject
        (if js_trim (downloadUrl p) = []
         then (ascii ''Download URL is required and cannot be empty'')
         else (ascii ''Upload URL is required and cannot be empty''))))"
proof (cases "js_trim (downloadUrl p) = []")
  case True
  then show ?thesis by (simp add: execute_def)
next
  case False
  then have "downloadUrl p \<noteq> []" by auto
  with False assms show ?thesis by (simp add: execute_def)
qed

theorem empty_url_always_raises_witness:
  "uploadUrl blank_upload_params = [32, 9, 160, 8195, 8232]
   \<and> js_trim (uploadUrl blank_upload_params) = []
   \<and> execute ok_env (blank_upload_params\<lparr>throwOnError := False\<rparr>) =
       ([], Raised (ErrorObject (ascii ''Upload URL is required and cannot be empty'')))
   \<and> js_trim (downloadUrl (sample_params\<lparr>downloadUrl := [160]\<rparr>)) = []
   \<and> execute ok_env (sample_params\<lparr>downloadUrl := [160], throwOnError := False\<rparr>) =
       ([], Raised (ErrorObject (ascii ''Download URL is required and cannot be empty'')))"
proof -
  have ws: "js_trim [32, 9, 160, 8195, 8232] = []" "js_trim [160] = []"
    by (simp_all add: js_trim_def is_whitespace_def)
  show ?thesis
    using empty_url_always_raises [of blank_upload_params ok_env False]
      empty_url_always_raises [of "sample_params\<lparr>downloadUrl := [160]\<rparr>" ok_env False]
      ws
    by simp
qed

text \<open>
  C10. A response without a status code passes the status check of its phase: with
  an undefined download status the upload request is still issued, with an undefined
  upload status the transfer still succeeds, and the success record reports 200 for
  each phase whose status code was undefined.
\<close>

theorem undefined_status_skips_check:
  assumes "js_trim (downloadUrl p) \<noteq> []" and "js_trim (uploadUrl p) \<noteq> []"
    and "parseHeaders e (downloadHeadersParam p) = Inr dh"
    and "parseHeaders e (uploadHeadersParam p) = Inr uh"
    and "request e (downloadOptions p (finalDownloadHeaders dh)) = Inr dr"
    and "statusCode dr = None \<or> (\<exists>c. statusCode dr = Some c \<and> 200 \<le> c \<and> c < 300)"
    and "resp_body dr = JStream h"
    and "request e (uploadOptions p (finalUploadHeaders e p dr (preparedUploadHeaders e p uh))
           (JStream h)) = Inr ur"
    and "statusCode ur = None \<or> (\<exists>c. statusCode ur = Some c \<and> 200 \<le> c \<and> c < 300)"
  shows "\<exists>item.
     execute e p =
       ([downloadOptions p (finalDownloadHeaders dh),
         uploadOptions p (finalUploadHeaders e p dr (preparedUploadHeaders e p uh)) (JStream h)],
        Returned item)
     \<and> success (json item) = Some True
     \<and> error (json item) = None
     \<and> (statusCode dr = None \<longrightarrow> downloadStatus (json item) = Some 200)
     \<and> (statusCode ur = None \<longrightarrow> uploadStatus (json item) = Some 200)"
proof -
  from assms(6) have d: "\<not> status_failed (statusCode dr)" by auto
  from assms(9) have u: "\<not> status_failed (statusCode ur)" by auto
  show ?thesis
    by (auto simp: execute_success [OF assms(1-5) d assms(7,8) u] successRecord_def)
qed

theorem undefined_status_skips_check_witness:
  "statusCode (stream_response None) = None
   \<and> statusCode (text_response None (ascii ''{}'')) = None
   \<and> (\<exists>item.
        snd (execute (sample_env (Inr (stream_response None)) (Inr (text_response None (ascii ''{}''))))
               sample_params) = Returned item
        \<and> success (json item) = Some True
        \<and> downloadStatus (json item) = Some 200
        \<and> uploadStatus (json item) = Some 200)"
  using undefined_status_skips_check
    [of sample_params
        "sample_env (Inr (stream_response None)) (Inr (text_response None (ascii ''{}'')))"
        Map.empty Map.empty "stream_response None" 0 "text_response None (ascii ''{}'')"]
  by auto

end
